theory Spec2Isabelle
  imports Complex_Main "HOL-Library.Log_Nat"
begin

section \<open>The JavaScript values the server computes with\<close>

text \<open>
  The server (\<^verbatim>\<open>src/service.ts\<close>) is one TypeScript file: a weather tool registered
  on an MCP server, and an Express handler that routes each request of \<^verbatim>\<open>/mcp\<close> to the
  transport of its session. Three things of the language decide what the code does and are
  modelled first: \<^verbatim>\<open>String.prototype.toLowerCase\<close>, the lookup \<^verbatim>\<open>obj[key]\<close> on an
  object literal that is used as a dictionary, and arithmetic on numbers.
  Output on the console is not modelled.
\<close>

subsection \<open>Strings\<close>

text \<open>
  A string is an Isabelle \<^typ>\<open>string\<close>; its characters stand for the code units
  U+0000 to U+00FF. In that range \<^verbatim>\<open>toLowerCase\<close> moves the letters A to Z and the
  letters U+00C0 to U+00DE (without the multiplication sign U+00D7) up by 32 and leaves
  every other character alone.
\<close>

definition toLowerCase_char :: "char \<Rightarrow> char" where
  "toLowerCase_char c =
     (let n = (of_char c :: nat)
      in if (65 \<le> n \<and> n \<le> 90) \<or> (192 \<le> n \<and> n \<le> 222 \<and> n \<noteq> 215)
         then char_of (n + 32) else c)"

definition toLowerCase :: "string \<Rightarrow> string" where
  "toLowerCase s = map toLowerCase_char s"

subsection \<open>Object literals used as dictionaries\<close>

text \<open>
  \<^verbatim>\<open>dummyWeatherData\<close> and \<^verbatim>\<open>activeTransports\<close> are object literals. The read
  \<^verbatim>\<open>obj[key]\<close> finds the object's own property \<^verbatim>\<open>key\<close> and, when there is none, the
  property of that name that every object literal inherits from \<^verbatim>\<open>Object.prototype\<close>.
  The inherited values are functions (for \<^verbatim>\<open>__proto__\<close> the prototype object), so
  they are truthy and have no field of a weather record and no method of a transport.
  The own properties are a map; a read gives one of three results.
\<close>

definition object_prototype_keys :: "string list" where
  "object_prototype_keys =
     [''constructor'', ''__proto__'', ''hasOwnProperty'', ''isPrototypeOf'',
      ''propertyIsEnumerable'', ''toLocaleString'', ''toString'', ''valueOf'',
      ''__defineGetter__'', ''__defineSetter__'', ''__lookupGetter__'', ''__lookupSetter__'']"

datatype 'a js_prop = Undefined | Own 'a | Inherited

definition js_get :: "(string \<rightharpoonup> 'a) \<Rightarrow> string \<Rightarrow> 'a js_prop" where
  "js_get obj key =
     (case obj key of
        Some v \<Rightarrow> Own v
      | None \<Rightarrow> if key \<in> set object_prototype_keys then Inherited else Undefined)"

subsection \<open>Numbers\<close>

text \<open>
  A number is the rational it denotes; every arithmetic operation rounds its exact
  result to the nearest binary64 value, ties to the even significand, as IEEE 754
  prescribes. \<open>binary64\<close> is that rounding for the normal range: the exponent is not
  bounded, so overflow to \<^verbatim>\<open>Infinity\<close>, subnormal numbers, \<^verbatim>\<open>NaN\<close> and the sign of
  zero are outside the model. \<open>exponent x\<close> is the \<open>e\<close> with \<open>2\<^sup>e \<le> \<bar>x\<bar> < 2\<^sup>e\<^sup>+\<^sup>1\<close>,
  found from the numbers of binary digits (\<open>bitlen\<close>) of numerator and denominator; the
  significand has 53 bits, so the unit in the last place is \<open>2\<^sup>e\<^sup>-\<^sup>5\<^sup>2\<close>.
\<close>

type_synonym number = rat

definition pow2 :: "int \<Rightarrow> rat" where
  "pow2 k = (if 0 \<le> k then 2 ^ nat k else 1 / 2 ^ nat (- k))"

definition round_even :: "rat \<Rightarrow> int" where
  "round_even y =
     (let f = \<lfloor>y\<rfloor>; r = y - of_int f
      in if r < 1 / 2 then f else if 1 / 2 < r then f + 1 else if even f then f else f + 1)"

definition exponent :: "rat \<Rightarrow> int" where
  "exponent x =
     (case quotient_of \<bar>x\<bar> of
        (p, q) \<Rightarrow>
          let d = bitlen p - bitlen q
          in if pow2 d \<le> \<bar>x\<bar> then d else d - 1)"

definition binary64 :: "rat \<Rightarrow> number" where
  "binary64 x =
     (if x = 0 then 0
      else
        let ulp = pow2 (exponent x - 52)
        in sgn x * of_int (round_even (\<bar>x\<bar> / ulp)) * ulp)"

definition js_add :: "number \<Rightarrow> number \<Rightarrow> number" where
  "js_add a b = binary64 (a + b)"

definition js_sub :: "number \<Rightarrow> number \<Rightarrow> number" where
  "js_sub a b = binary64 (a - b)"

definition js_mul :: "number \<Rightarrow> number \<Rightarrow> number" where
  "js_mul a b = binary64 (a * b)"

definition js_div :: "number \<Rightarrow> number \<Rightarrow> number" where
  "js_div a b = binary64 (a / b)"

text \<open>
  \<^verbatim>\<open>x.toFixed(1)\<close> prints the integer \<open>n\<close> for which \<open>n / 10\<close> is nearest to the exact
  value of \<open>x\<close>, the larger \<open>n\<close> of two equally near ones, with a decimal point before its
  last digit; a negative \<open>x\<close> is printed as the negation of \<open>- x\<close>. \<open>toFixed1\<close> is that
  integer with its sign. From \<open>10\<^sup>2\<^sup>1\<close> on \<^verbatim>\<open>toFixed\<close> prints the number as
  \<^verbatim>\<open>toString\<close> does, and \<^verbatim>\<open>parseFloat\<close> reads the same number back.
\<close>

definition toFixed1 :: "number \<Rightarrow> int" where
  "toFixed1 x = (if x < 0 then - \<lfloor>- x * 10 + 1 / 2\<rfloor> else \<lfloor>x * 10 + 1 / 2\<rfloor>)"

definition parseFloat_toFixed1 :: "number \<Rightarrow> number" where
  "parseFloat_toFixed1 x =
     (if 10 ^ 21 \<le> \<bar>x\<bar> then x else binary64 (of_int (toFixed1 x) / 10))"

section \<open>The weather tool\<close>

datatype temperature_unit = Metric | Imperial

record WeatherData =
  temperature :: number
  description :: string
  humidity :: number
  unit :: temperature_unit

definition dummyWeatherData :: "string \<rightharpoonup> WeatherData" where
  "dummyWeatherData =
     [''paris'' \<mapsto> \<lparr>temperature = 15, description = ''Cloudy'', humidity = 70, unit = Metric\<rparr>,
      ''london'' \<mapsto> \<lparr>temperature = 12, description = ''Rainy'', humidity = 85, unit = Metric\<rparr>,
      ''tokyo'' \<mapsto> \<lparr>temperature = 22, description = ''Sunny'', humidity = 60, unit = Metric\<rparr>]"

text \<open>
  The arguments as the client sends them, and as the handler receives them from the
  input schema: \<^verbatim>\<open>z.string().toLowerCase()\<close> folds the city, and
  \<^verbatim>\<open>.optional().default("metric")\<close> fills in a unit that was left out. Arguments
  that the schema rejects (a city that is no string, a unit outside the enumeration) never
  reach the handler; they are no values of \<open>raw_arguments\<close>.
\<close>

record raw_arguments =
  raw_city :: string
  raw_unit :: "temperature_unit option"

record arguments =
  arg_city :: string
  arg_unit :: temperature_unit

definition inputSchema :: "raw_arguments \<Rightarrow> arguments" where
  "inputSchema raw =
     \<lparr>arg_city = toLowerCase (raw_city raw),
      arg_unit = (case raw_unit raw of None \<Rightarrow> Metric | Some u \<Rightarrow> u)\<rparr>"

text \<open>
  The result of a call. A template literal is kept as its parts, so that a number in it
  stays a number: how \<^verbatim>\<open>Number.prototype.toString\<close> prints is the runtime's business.
\<close>

datatype template_part = Str string | Num number

datatype content_block = Text "template_part list"

record structuredOutput =
  s_city :: string
  s_temperature :: number
  s_unit :: temperature_unit
  s_description :: string
  s_humidity :: number

record CallToolResult =
  isError :: "bool option"
  content :: "content_block list"
  structuredContent :: "structuredOutput option"

record notification =
  n_method :: string
  n_level :: string
  n_data :: string

datatype js_error = TypeError

text \<open>
  Lines 83 to 93 of the handler: the temperature and the unit that are shown for a
  record of the table and a requested unit.
\<close>

definition display :: "WeatherData \<Rightarrow> temperature_unit \<Rightarrow> number \<times> temperature_unit" where
  "display weather requested =
     (case
        (if requested = Imperial \<and> unit weather = Metric
         then (js_add (js_div (js_mul (temperature weather) 9) 5) 32, Imperial)
         else if requested = Metric \<and> unit weather = Imperial
         then (js_div (js_mul (js_sub (temperature weather) 32) 5) 9, Metric)
         else (temperature weather, unit weather))
      of (displayTemperature, displayUnit) \<Rightarrow>
        (parseFloat_toFixed1 displayTemperature, displayUnit))"

text \<open>
  The handler of \<^verbatim>\<open>get_city_weather\<close>. It returns the notifications it has sent
  (\<^verbatim>\<open>sendNotification\<close> is the SDK's and is taken to succeed) and either the result or
  the exception it has thrown. When the lookup finds an inherited
  property, \<^verbatim>\<open>weather.temperature\<close> is \<^verbatim>\<open>undefined\<close>, none of the two conversions
  applies, and \<^verbatim>\<open>displayTemperature.toFixed(1)\<close> throws a \<^verbatim>\<open>TypeError\<close>.
\<close>

definition get_city_weather ::
  "arguments \<Rightarrow> notification list \<times> (js_error + CallToolResult)" where
  "get_city_weather args =
     (let city = arg_city args;
          sent = [\<lparr>n_method = ''notifications/message'', n_level = ''info'',
                   n_data = ''Processing weather request for '' @ city\<rparr>]
      in (sent,
          case js_get dummyWeatherData (toLowerCase city) of
            Undefined \<Rightarrow>
              Inr \<lparr>isError = Some True,
                   content = [Text [Str (''Sorry, I don't have weather data for '' @ city @ ''.'')]],
                   structuredContent = None\<rparr>
          | Inherited \<Rightarrow> Inl TypeError
          | Own weather \<Rightarrow>
              (case display weather (arg_unit args) of
                 (displayTemperature, displayUnit) \<Rightarrow>
                   Inr \<lparr>isError = None,
                        content =
                          [Text [Str (''The weather in '' @ city @ '' is ''),
                                 Num displayTemperature,
                                 Str ([CHR 0xB0] @ (if displayUnit = Metric then ''C'' else ''F'')
                                      @ '', '' @ description weather @ '' with ''),
                                 Num (humidity weather),
                                 Str ''% humidity.'']],
                        structuredContent =
                          Some \<lparr>s_city = city, s_temperature = displayTemperature,
                                s_unit = displayUnit, s_description = description weather,
                                s_humidity = humidity weather\<rparr>\<rparr>)))"

text \<open>A call of the tool: the input schema first, then the handler.\<close>

definition call_get_city_weather ::
  "raw_arguments \<Rightarrow> notification list \<times> (js_error + CallToolResult)" where
  "call_get_city_weather raw = get_city_weather (inputSchema raw)"

section \<open>The session registry and the request router\<close>

text \<open>
  The body of a request as \<^verbatim>\<open>express.json()\<close> leaves it: a JSON value, or nothing.
  The fields of an object are its own properties, every name once.
\<close>

datatype json =
  JNull | JBool bool | JNum number | JStr string | JArr "json list" | JObj "(string \<times> json) list"

fun truthy :: "json \<Rightarrow> bool" where
  "truthy JNull = False"
| "truthy (JBool b) = b"
| "truthy (JNum n) = (n \<noteq> 0)"
| "truthy (JStr s) = (s \<noteq> [])"
| "truthy (JArr vs) = True"
| "truthy (JObj props) = True"

record request =
  http_method :: string
  mcp_session_id :: "string option"
  body :: "json option"

text \<open>\<^verbatim>\<open>(req.body as any)?.id || null\<close>, the \<^verbatim>\<open>id\<close> of every error response.\<close>

definition request_id :: "request \<Rightarrow> json" where
  "request_id req =
     (case body req of
        Some (JObj props) \<Rightarrow>
          (case map_of props ''id'' of
             Some v \<Rightarrow> if truthy v then v else JNull
           | None \<Rightarrow> JNull)
      | _ \<Rightarrow> JNull)"

text \<open>
  A transport is an object of the SDK; the model knows it by the number of transports
  constructed before it. The state of the server is the own properties of
  \<^verbatim>\<open>activeTransports\<close>, the \<^verbatim>\<open>sessionId\<close> field of every transport (the SDK sets it
  when the session is initialized), and the number of transports constructed so far.
\<close>

type_synonym transport = nat

record server_state =
  activeTransports :: "string \<rightharpoonup> transport"
  sessionId :: "transport \<rightharpoonup> string"
  created :: nat

definition initial_state :: server_state where
  "initial_state = \<lparr>activeTransports = Map.empty, sessionId = Map.empty, created = 0\<rparr>"

text \<open>
  The handler answers with \<^verbatim>\<open>res.status(status).json({jsonrpc: "2.0", error: {code,
  message}, id})\<close>, or leaves the response to a transport.
\<close>

record error_response =
  status :: nat
  code :: int
  message :: string
  rpc_id :: json

datatype outcome = Replied error_response | Handled transport

definition session_not_found :: "request \<Rightarrow> error_response" where
  "session_not_found req =
     \<lparr>status = 404, code = - 32001, message = ''Session not found. Please re-initialize.'',
      rpc_id = request_id req\<rparr>"

definition bad_request :: "request \<Rightarrow> error_response" where
  "bad_request req =
     \<lparr>status = 400, code = - 32600,
      message = ''Bad Request: Session ID required or invalid initialization.'',
      rpc_id = request_id req\<rparr>"

definition internal_server_error :: "request \<Rightarrow> error_response" where
  "internal_server_error req =
     \<lparr>status = 500, code = - 32000, message = ''Internal Server Error'',
      rpc_id = request_id req\<rparr>"

text \<open>
  What \<^verbatim>\<open>transport.handleRequest(req, res, req.body)\<close> does is the SDK's: it returns, or
  it throws, and then the headers of the response have been sent or not. Lines 179 to 186:
  an exception is answered with the internal error unless the headers have been sent. A
  value that is not a transport has no method \<^verbatim>\<open>handleRequest\<close>; calling it throws a
  \<^verbatim>\<open>TypeError\<close> before anything is sent.
\<close>

datatype handle_result = Returned | Threw bool

definition try_handleRequest ::
  "(transport \<Rightarrow> handle_result) \<Rightarrow> transport js_prop \<Rightarrow> request \<Rightarrow> outcome" where
  "try_handleRequest handleRequest transport req =
     (case transport of
        Own t \<Rightarrow>
          (case handleRequest t of
             Returned \<Rightarrow> Handled t
           | Threw headersSent \<Rightarrow>
               if headersSent then Handled t else Replied (internal_server_error req))
      | Inherited \<Rightarrow> Replied (internal_server_error req)
      | Undefined \<Rightarrow> Replied (internal_server_error req))"

text \<open>
  The handler of \<^verbatim>\<open>/mcp\<close>, lines 132 to 187. The header is a string or absent, and
  \<^verbatim>\<open>sessionId && ...\<close> and \<^verbatim>\<open>!sessionId\<close> test its truthiness: the empty string counts
  as absent. \<open>isInitializeRequest\<close> is the SDK's test of the body. In the second branch
  the handler constructs a transport and connects a fresh MCP server to it; both are the
  SDK's and are taken to succeed. The new transport enters the registry later, when the
  SDK calls \<^verbatim>\<open>onsessioninitialized\<close>.
\<close>

definition truthy_string :: "string option \<Rightarrow> bool" where
  "truthy_string h = (case h of None \<Rightarrow> False | Some str \<Rightarrow> str \<noteq> [])"

definition mcp_handler ::
  "(json option \<Rightarrow> bool) \<Rightarrow> (transport \<Rightarrow> handle_result) \<Rightarrow> request \<Rightarrow> server_state
     \<Rightarrow> outcome \<times> server_state" where
  "mcp_handler isInitializeRequest handleRequest req s =
     (let sid = mcp_session_id req;
          found = (case sid of
                     Some key \<Rightarrow> js_get (activeTransports s) key
                   | None \<Rightarrow> Undefined)
      in if truthy_string sid \<and> found \<noteq> Undefined
         then (try_handleRequest handleRequest found req, s)
         else if \<not> truthy_string sid \<and> http_method req = ''POST'' \<and> isInitializeRequest (body req)
         then (try_handleRequest handleRequest (Own (created s)) req,
               s\<lparr>created := Suc (created s)\<rparr>)
         else if truthy_string sid \<and> found = Undefined
         then (Replied (session_not_found req), s)
         else (Replied (bad_request req), s))"

text \<open>
  The two callbacks of a new transport \<open>t\<close>. \<^verbatim>\<open>onsessioninitialized\<close> (line 152) is
  the one write to the registry; the SDK calls it with the value of
  \<^verbatim>\<open>sessionIdGenerator\<close>, a \<^verbatim>\<open>randomUUID()\<close>. (The model is the assignment for every
  key but \<^verbatim>\<open>__proto__\<close>, which would replace the prototype instead.)
  \<^verbatim>\<open>onclose\<close> (lines 156 to 162) is the one removal.
\<close>

definition onsessioninitialized :: "transport \<Rightarrow> string \<Rightarrow> server_state \<Rightarrow> server_state" where
  "onsessioninitialized t newSessionId s =
     s\<lparr>activeTransports := (activeTransports s)(newSessionId \<mapsto> t)\<rparr>"

definition onclose :: "transport \<Rightarrow> server_state \<Rightarrow> server_state" where
  "onclose t s =
     (case sessionId s t of
        None \<Rightarrow> s
      | Some sid \<Rightarrow>
          if sid \<noteq> [] \<and> js_get (activeTransports s) sid \<noteq> Undefined
          then s\<lparr>activeTransports := (activeTransports s)(sid := None)\<rparr>
          else s)"

text \<open>
  The identifiers of \<^verbatim>\<open>randomUUID()\<close>: 36 characters, hexadecimal digits in lower case
  in five groups of 8, 4, 4, 4 and 12, with hyphens between them.
\<close>

definition uuid_shape :: "char \<Rightarrow> char" where
  "uuid_shape c =
     (if c \<in> set ''0123456789abcdef'' then CHR ''x''
      else if c = CHR ''-'' then CHR ''-'' else CHR ''?'')"

definition is_uuid :: "string \<Rightarrow> bool" where
  "is_uuid str = (map uuid_shape str = ''xxxxxxxx-xxxx-xxxx-xxxx-xxxxxxxxxxxx'')"

text \<open>
  What happens to the server, one event at a time: a request arrives (with what
  \<^verbatim>\<open>handleRequest\<close> would do with it), the SDK initializes the session of a transport
  (it sets the transport's \<^verbatim>\<open>sessionId\<close> and calls \<^verbatim>\<open>onsessioninitialized\<close>), or a
  transport closes (the SDK calls \<^verbatim>\<open>onclose\<close>). \<open>run\<close> collects the answers.
\<close>

datatype event =
  Request request "transport \<Rightarrow> handle_result"
| SessionInitialized transport string
| Closed transport

fun step :: "(json option \<Rightarrow> bool) \<Rightarrow> event \<Rightarrow> server_state \<Rightarrow> outcome option \<times> server_state" where
  "step isInitializeRequest (Request req handleRequest) s =
     (case mcp_handler isInitializeRequest handleRequest req s of
        (out, s') \<Rightarrow> (Some out, s'))"
| "step isInitializeRequest (SessionInitialized t sid) s =
     (None, onsessioninitialized t sid (s\<lparr>sessionId := (sessionId s)(t \<mapsto> sid)\<rparr>))"
| "step isInitializeRequest (Closed t) s = (None, onclose t s)"

fun run ::
  "(json option \<Rightarrow> bool) \<Rightarrow> event list \<Rightarrow> server_state \<Rightarrow> outcome option list \<times> server_state" where
  "run isInitializeRequest [] s = ([], s)"
| "run isInitializeRequest (e # es) s =
     (case step isInitializeRequest e s of
        (out, s') \<Rightarrow>
          (case run isInitializeRequest es s' of
             (outs, s'') \<Rightarrow> (out # outs, s'')))"

text \<open>
  An event issues an identifier when it initializes a session with it. The generator
  issues UUIDs only.
\<close>

fun issues :: "string \<Rightarrow> event \<Rightarrow> bool" where
  "issues sid (SessionInitialized t sid') = (sid' = sid)"
| "issues sid (Request req handleRequest) = False"
| "issues sid (Closed t) = False"

fun issues_uuid :: "event \<Rightarrow> bool" where
  "issues_uuid (SessionInitialized t sid) = is_uuid sid"
| "issues_uuid (Request req handleRequest) = True"
| "issues_uuid (Closed t) = True"

section \<open>The conversion as the specification words it\<close>

text \<open>
  The specification asks for the standard affine transform between Celsius and
  Fahrenheit, rounded to one decimal place. These are exact, on the rationals; the tool's
  result is compared with them.
\<close>

definition affine_transform :: "temperature_unit \<Rightarrow> temperature_unit \<Rightarrow> rat \<Rightarrow> rat" where
  "affine_transform native requested x =
     (if native = Metric \<and> requested = Imperial then x * 9 / 5 + 32
      else if native = Imperial \<and> requested = Metric then (x - 32) * 5 / 9
      else x)"

definition one_decimal :: "rat \<Rightarrow> rat" where
  "one_decimal x = of_int (round (x * 10)) / 10"

text \<open>The unit a call asks for: the one it names, metric when it names none.\<close>

definition requested_unit :: "raw_arguments \<Rightarrow> temperature_unit" where
  "requested_unit raw = (case raw_unit raw of None \<Rightarrow> Metric | Some u \<Rightarrow> u)"

section \<open>Examples of requests\<close>

text \<open>
  For the examples, a test of the body that stands in for the SDK's, after its schema of
  an initialization request: an object whose \<^verbatim>\<open>method\<close> is \<^verbatim>\<open>initialize\<close> and whose
  \<^verbatim>\<open>params\<close> hold a protocol version (a string), the capabilities (an object) and the
  client's name and version (strings, in the object \<^verbatim>\<open>clientInfo\<close>).
\<close>

definition is_string :: "json option \<Rightarrow> bool" where
  "is_string v = (case v of Some (JStr str) \<Rightarrow> True | _ \<Rightarrow> False)"

definition is_object :: "json option \<Rightarrow> bool" where
  "is_object v = (case v of Some (JObj props) \<Rightarrow> True | _ \<Rightarrow> False)"

definition example_isInitializeRequest :: "json option \<Rightarrow> bool" where
  "example_isInitializeRequest b =
     (case b of
        Some (JObj props) \<Rightarrow>
          map_of props ''method'' = Some (JStr ''initialize'')
          \<and> (case map_of props ''params'' of
                Some (JObj params) \<Rightarrow>
                  is_string (map_of params ''protocolVersion'')
                  \<and> is_object (map_of params ''capabilities'')
                  \<and> (case map_of params ''clientInfo'' of
                        Some (JObj info) \<Rightarrow>
                          is_string (map_of info ''name'') \<and> is_string (map_of info ''version'')
                      | _ \<Rightarrow> False)
              | _ \<Rightarrow> False)
      | _ \<Rightarrow> False)"

definition initialize_body :: json where
  "initialize_body =
     JObj [(''jsonrpc'', JStr ''2.0''), (''id'', JNum 1), (''method'', JStr ''initialize''),
           (''params'',
            JObj [(''protocolVersion'', JStr ''2025-03-26''),
                  (''capabilities'', JObj []),
                  (''clientInfo'',
                   JObj [(''name'', JStr ''example-client''), (''version'', JStr ''1.0.0'')])])]"

definition always_returns :: "transport \<Rightarrow> handle_result" where
  "always_returns t = Returned"

definition tools_call_body :: json where
  "tools_call_body = JObj [(''jsonrpc'', JStr ''2.0''), (''id'', JNum 7), (''method'', JStr ''tools/call'')]"

text \<open>
  A state with one session: transport 0 has been constructed and the SDK has
  initialized its session.
\<close>

definition one_session :: server_state where
  "one_session =
     \<lparr>activeTransports = [''36b8f84d-df4e-4d49-b662-bcde71a8764f'' \<mapsto> 0],
      sessionId = [0 \<mapsto> ''36b8f84d-df4e-4d49-b662-bcde71a8764f''],
      created = 1\<rparr>"

section \<open>Facts about the model\<close>

subsection \<open>Lower case\<close>

lemma toLowerCase_char_idem: "toLowerCase_char (toLowerCase_char c) = toLowerCase_char c"
  by (auto simp: toLowerCase_char_def Let_def)

lemma toLowerCase_idem: "toLowerCase (toLowerCase str) = toLowerCase str"
  by (simp add: toLowerCase_def toLowerCase_char_idem)

subsection \<open>The table\<close>

lemma known_city_cases:
  assumes "dummyWeatherData key = Some weather"
  shows "(key = ''paris'' \<and> weather = \<lparr>temperature = 15, description = ''Cloudy'', humidity = 70, unit = Metric\<rparr>)
       \<or> (key = ''london'' \<and> weather = \<lparr>temperature = 12, description = ''Rainy'', humidity = 85, unit = Metric\<rparr>)
       \<or> (key = ''tokyo'' \<and> weather = \<lparr>temperature = 22, description = ''Sunny'', humidity = 60, unit = Metric\<rparr>)"
  using assms by (auto simp: dummyWeatherData_def split: if_splits)

lemma js_get_own: "obj key = Some v \<Longrightarrow> js_get obj key = Own v"
  by (simp add: js_get_def)

lemma js_get_Undefined_iff:
  "js_get obj key = Undefined \<longleftrightarrow> obj key = None \<and> key \<notin> set object_prototype_keys"
  by (simp add: js_get_def split: option.splits)

lemma js_get_Inherited_iff:
  "js_get obj key = Inherited \<longleftrightarrow> obj key = None \<and> key \<in> set object_prototype_keys"
  by (simp add: js_get_def split: option.splits)

subsection \<open>What the rounding does\<close>

text \<open>
  \<open>exponent x\<close> is the binary exponent of \<open>x\<close>, and \<open>binary64 x\<close> is a number with a
  significand of 53 bits at that exponent, at most half a unit in the last place away
  from \<open>x\<close>.
\<close>

lemma pow2_powi: "pow2 k = 2 powi k"
  by (simp add: pow2_def power_int_def field_simps)

lemma pow2_pos: "0 < pow2 k"
  by (simp add: pow2_powi)

lemma pow2_add: "pow2 (a + b) = pow2 a * pow2 b"
  by (simp add: pow2_powi power_int_add)

lemma pow2_nat: "pow2 (int n) = 2 ^ n"
  by (simp add: pow2_def)

lemma pow2_mono: "a \<le> b \<Longrightarrow> pow2 a \<le> pow2 b"
  by (simp add: pow2_powi power_int_increasing)

lemma bitlen_bounds_rat:
  assumes "0 < p"
  shows "pow2 (bitlen p - 1) \<le> of_int p" and "of_int p < pow2 (bitlen p)"
proof -
  from bitlen_bounds [OF assms] have lo: "2 ^ nat (bitlen p - 1) \<le> p" and hi: "p < 2 ^ nat (bitlen p)"
    by simp_all
  from assms have pos: "1 \<le> bitlen p"
    by (auto simp: bitlen_alt_def)
  have "pow2 (bitlen p - 1) = of_int (2 ^ nat (bitlen p - 1))"
    using pos by (simp add: pow2_def)
  also have "\<dots> \<le> of_int p" using lo by (simp only: of_int_le_iff)
  finally show "pow2 (bitlen p - 1) \<le> of_int p" .
  have "(of_int p :: rat) < of_int (2 ^ nat (bitlen p))" using hi by (simp only: of_int_less_iff)
  also have "\<dots> = pow2 (bitlen p)" using pos by (simp add: pow2_def)
  finally show "of_int p < pow2 (bitlen p)" .
qed

lemma exponent_bounds:
  assumes "x \<noteq> 0"
  shows "pow2 (exponent x) \<le> \<bar>x\<bar>" and "\<bar>x\<bar> < pow2 (exponent x + 1)"
proof -
  obtain p q where pq: "quotient_of \<bar>x\<bar> = (p, q)" by (cases "quotient_of \<bar>x\<bar>")
  then have q: "0 < q" by (rule quotient_of_denom_pos)
  from pq have x: "\<bar>x\<bar> = of_int p / of_int q" by (rule quotient_of_div)
  from assms have "0 < \<bar>x\<bar>" by simp
  with x q have p: "0 < p" by (simp add: zero_less_divide_iff)
  define d where "d = bitlen p - bitlen q"
  have upper: "\<bar>x\<bar> < pow2 (d + 1)"
  proof -
    have "of_int p < pow2 (bitlen p)" by (rule bitlen_bounds_rat [OF p])
    also have "pow2 (bitlen p) = pow2 (d + 1) * pow2 (bitlen q - 1)"
      by (simp add: d_def flip: pow2_add)
    also have "\<dots> \<le> pow2 (d + 1) * of_int q"
      using bitlen_bounds_rat(1) [OF q] pow2_pos [of "d + 1"] by simp
    finally have "of_int p < pow2 (d + 1) * of_int q" .
    with q show ?thesis by (simp add: x pos_divide_less_eq)
  qed
  have lower: "pow2 (d - 1) < \<bar>x\<bar>"
  proof -
    have "pow2 (d - 1) * of_int q < pow2 (d - 1) * pow2 (bitlen q)"
      using bitlen_bounds_rat(2) [OF q] pow2_pos [of "d - 1"] by simp
    also have "\<dots> = pow2 (bitlen p - 1)"
      by (simp add: d_def flip: pow2_add)
    also have "\<dots> \<le> of_int p" by (rule bitlen_bounds_rat [OF p])
    finally have "pow2 (d - 1) * of_int q < of_int p" .
    with q show ?thesis by (simp add: x pos_less_divide_eq)
  qed
  have e: "exponent x = (if pow2 d \<le> \<bar>x\<bar> then d else d - 1)"
    by (simp add: exponent_def pq d_def Let_def)
  show "pow2 (exponent x) \<le> \<bar>x\<bar>"
    using lower by (simp add: e)
  show "\<bar>x\<bar> < pow2 (exponent x + 1)"
    using upper by (simp add: e)
qed

lemma round_even_near: "\<bar>of_int (round_even y) - y\<bar> \<le> 1 / 2"
proof -
  define f where "f = \<lfloor>y\<rfloor>"
  define r where "r = y - of_int f"
  have r: "0 \<le> r" "r < 1"
    unfolding r_def f_def by linarith+
  have y: "y = of_int f + r"
    by (simp add: r_def)
  have "round_even y = (if r < 1 / 2 then f else if 1 / 2 < r then f + 1
                        else if even f then f else f + 1)"
    by (simp add: round_even_def Let_def f_def r_def)
  with r show ?thesis
    by (auto simp: y abs_if)
qed

lemma binary64_nearest:
  assumes "x \<noteq> 0"
  shows "\<bar>binary64 x - x\<bar> \<le> pow2 (exponent x - 53)"
    and "\<exists>n. binary64 x = sgn x * of_int n * pow2 (exponent x - 52) \<and> 2 ^ 52 \<le> n \<and> n \<le> 2 ^ 53"
proof -
  define ulp where "ulp = pow2 (exponent x - 52)"
  define m where "m = \<bar>x\<bar> / ulp"
  define n where "n = round_even m"
  have ulp: "0 < ulp" by (simp add: ulp_def pow2_pos)
  have b: "binary64 x = sgn x * of_int n * ulp"
    using assms by (simp add: binary64_def Let_def ulp_def m_def n_def)
  have near: "\<bar>of_int n - m\<bar> \<le> 1 / 2"
    unfolding n_def by (rule round_even_near)
  have x: "x = sgn x * (m * ulp)"
    using ulp by (simp add: m_def sgn_mult_abs)
  have "binary64 x - x = sgn x * ((of_int n - m) * ulp)"
    by (subst (2) x) (simp add: b algebra_simps)
  then have "\<bar>binary64 x - x\<bar> = \<bar>of_int n - m\<bar> * ulp"
    using assms ulp by (simp add: abs_mult abs_sgn_eq)
  also have "\<dots> \<le> 1 / 2 * ulp"
    using near ulp by (simp only: mult_le_cancel_right_pos)
  also have "1 / 2 * ulp = pow2 (exponent x - 53)"
  proof -
    have "pow2 (exponent x - 52) = pow2 (exponent x - 53) * pow2 1"
      by (simp flip: pow2_add)
    then show ?thesis by (simp add: ulp_def pow2_def)
  qed
  finally show "\<bar>binary64 x - x\<bar> \<le> pow2 (exponent x - 53)" .
  have "pow2 52 * ulp = pow2 (exponent x)" and "pow2 53 * ulp = pow2 (exponent x + 1)"
    by (simp_all add: ulp_def add.commute flip: pow2_add)
  with exponent_bounds [OF assms] ulp have "pow2 52 \<le> m" and "m < pow2 53"
    by (simp_all add: m_def pos_le_divide_eq pos_divide_less_eq)
  then have lo: "4503599627370496 \<le> m" and hi: "m < 9007199254740992"
    by (simp_all add: pow2_def)
  from near have "m - 1 / 2 \<le> of_int n" and "of_int n \<le> m + 1 / 2"
    by linarith+
  with lo hi have "(of_int 4503599627370495 :: rat) < of_int n"
    and "(of_int n :: rat) < of_int 9007199254740993"
    by simp_all
  then have "4503599627370495 < n" and "n < 9007199254740993"
    by (simp_all only: of_int_less_iff)
  then have "2 ^ 52 \<le> n \<and> n \<le> 2 ^ 53" by simp
  with b show "\<exists>n. binary64 x = sgn x * of_int n * pow2 (exponent x - 52) \<and> 2 ^ 52 \<le> n \<and> n \<le> 2 ^ 53"
    by (auto simp: ulp_def)
qed

subsection \<open>The error of the two conversions\<close>

text \<open>
  Every operation is off by at most the fraction \<open>2\<^sup>-\<^sup>5\<^sup>3\<close> of its exact result. So the
  three operations of a conversion end within a few units in the last place of the exact
  affine transform, and \<^verbatim>\<open>toFixed(1)\<close> moves its argument by at most half a tenth.
\<close>

lemma binary64_relative:
  "\<bar>binary64 x - x\<bar> \<le> \<bar>x\<bar> / 2 ^ 53"
proof (cases "x = 0")
  case True
  then show ?thesis by (simp add: binary64_def)
next
  case False
  have "pow2 (exponent x - 53) = pow2 (exponent x) * pow2 (- 53)"
    by (simp flip: pow2_add)
  also have "pow2 (- 53) = 1 / 2 ^ 53"
    by (simp add: pow2_def)
  finally have "pow2 (exponent x - 53) = pow2 (exponent x) / 2 ^ 53" by simp
  also have "\<dots> \<le> \<bar>x\<bar> / 2 ^ 53"
    using exponent_bounds(1) [OF False] by (simp add: divide_right_mono)
  finally show ?thesis
    using binary64_nearest(1) [OF False] by linarith
qed

lemma toFixed1_near: "\<bar>of_int (toFixed1 x) / 10 - x\<bar> \<le> 1 / 20"
proof (cases "x < 0")
  case True
  define y where "y = - x * 10 + 1 / 2"
  define n :: rat where "n = of_int (toFixed1 x)"
  have "of_int \<lfloor>y\<rfloor> \<le> y" and "y < of_int \<lfloor>y\<rfloor> + 1" by linarith+
  moreover have "n = - of_int \<lfloor>y\<rfloor>" using True by (simp add: n_def toFixed1_def y_def)
  moreover have "y = - x * 10 + 1 / 2" by (simp add: y_def)
  ultimately have "\<bar>n / 10 - x\<bar> \<le> 1 / 20" by linarith
  then show ?thesis by (simp only: n_def)
next
  case False
  define y where "y = x * 10 + 1 / 2"
  define n :: rat where "n = of_int (toFixed1 x)"
  have "of_int \<lfloor>y\<rfloor> \<le> y" and "y < of_int \<lfloor>y\<rfloor> + 1" by linarith+
  moreover have "n = of_int \<lfloor>y\<rfloor>" using False by (simp add: n_def toFixed1_def y_def)
  moreover have "y = x * 10 + 1 / 2" by (simp add: y_def)
  ultimately have "\<bar>n / 10 - x\<bar> \<le> 1 / 20" by linarith
  then show ?thesis by (simp only: n_def)
qed

lemma binary64_bound: "\<bar>binary64 x\<bar> \<le> 2 * \<bar>x\<bar>"
proof -
  have "\<bar>x\<bar> / 2 ^ 53 \<le> \<bar>x\<bar>" by (simp add: divide_le_eq)
  with binary64_relative [of x] show ?thesis by linarith
qed

lemma celsius_to_fahrenheit_error:
  "\<bar>js_add (js_div (js_mul t 9) 5) 32 - (t * 9 / 5 + 32)\<bar> \<le> (13 * \<bar>t\<bar> + 32) / 2 ^ 53"
proof -
  define u :: rat where "u = 1 / 2 ^ 53"
  define a where "a = js_mul t 9"
  define b where "b = js_div a 5"
  define c where "c = js_add b 32"
  have u: "0 \<le> u" by (simp add: u_def)
  have a: "\<bar>a - t * 9\<bar> \<le> 9 * \<bar>t\<bar> * u"
    using binary64_relative [of "t * 9"] by (simp add: a_def js_mul_def u_def abs_mult)
  have a': "\<bar>a\<bar> \<le> 18 * \<bar>t\<bar>"
    using binary64_bound [of "t * 9"] by (simp add: a_def js_mul_def abs_mult)
  have b: "\<bar>b - a / 5\<bar> \<le> \<bar>a\<bar> / 5 * u"
    using binary64_relative [of "a / 5"] by (simp add: b_def js_div_def u_def)
  have b': "\<bar>b\<bar> \<le> 2 * \<bar>a\<bar> / 5"
    using binary64_bound [of "a / 5"] by (simp add: b_def js_div_def)
  have c: "\<bar>c - (b + 32)\<bar> \<le> \<bar>b + 32\<bar> * u"
    using binary64_relative [of "b + 32"] by (simp add: c_def js_add_def u_def)
  have "\<bar>a\<bar> / 5 * u \<le> 18 * \<bar>t\<bar> / 5 * u"
    using a' u by (intro mult_right_mono) simp_all
  with b have b2: "\<bar>b - a / 5\<bar> \<le> 18 * \<bar>t\<bar> / 5 * u" by linarith
  have "\<bar>b + 32\<bar> \<le> 36 * \<bar>t\<bar> / 5 + 32"
    using a' b' by linarith
  then have "\<bar>b + 32\<bar> * u \<le> (36 * \<bar>t\<bar> / 5 + 32) * u"
    using u by (rule mult_right_mono)
  with c have c2: "\<bar>c - (b + 32)\<bar> \<le> (36 * \<bar>t\<bar> / 5 + 32) * u" by linarith
  have split: "c - (t * 9 / 5 + 32) = (c - (b + 32)) + (b - a / 5) + (a - t * 9) / 5"
    by (simp add: field_simps)
  have "\<bar>(c - (b + 32)) + (b - a / 5) + (a - t * 9) / 5\<bar>
      \<le> \<bar>c - (b + 32)\<bar> + \<bar>b - a / 5\<bar> + \<bar>(a - t * 9) / 5\<bar>"
    by linarith
  moreover have "\<bar>(a - t * 9) / 5\<bar> = \<bar>a - t * 9\<bar> / 5"
    by simp
  ultimately have "\<bar>c - (t * 9 / 5 + 32)\<bar> \<le> \<bar>c - (b + 32)\<bar> + \<bar>b - a / 5\<bar> + \<bar>a - t * 9\<bar> / 5"
    by (simp only: split)
  also have "\<dots> \<le> (36 * \<bar>t\<bar> / 5 + 32) * u + 18 * \<bar>t\<bar> / 5 * u + 9 * \<bar>t\<bar> * u / 5"
    using a b2 c2 by linarith
  also have "\<dots> = (63 * \<bar>t\<bar> / 5 + 32) * u"
    by (simp add: algebra_simps)
  also have "\<dots> \<le> (13 * \<bar>t\<bar> + 32) * u"
    using u by (intro mult_right_mono) simp_all
  finally show ?thesis
    by (simp add: a_def b_def c_def u_def)
qed

lemma fahrenheit_to_celsius_error:
  "\<bar>js_div (js_mul (js_sub t 32) 5) 9 - (t - 32) * 5 / 9\<bar> \<le> (4 * \<bar>t\<bar> + 125) / 2 ^ 53"
proof -
  define u :: rat where "u = 1 / 2 ^ 53"
  define a where "a = js_sub t 32"
  define b where "b = js_mul a 5"
  define c where "c = js_div b 9"
  have u: "0 \<le> u" by (simp add: u_def)
  have t: "\<bar>t - 32\<bar> \<le> \<bar>t\<bar> + 32" by linarith
  have a: "\<bar>a - (t - 32)\<bar> \<le> \<bar>t - 32\<bar> * u"
    using binary64_relative [of "t - 32"] by (simp add: a_def js_sub_def u_def)
  have a': "\<bar>a\<bar> \<le> 2 * \<bar>t\<bar> + 64"
    using binary64_bound [of "t - 32"] t by (simp add: a_def js_sub_def)
  have b: "\<bar>b - a * 5\<bar> \<le> 5 * \<bar>a\<bar> * u"
    using binary64_relative [of "a * 5"] by (simp add: b_def js_mul_def u_def abs_mult)
  have b': "\<bar>b\<bar> \<le> 10 * \<bar>a\<bar>"
    using binary64_bound [of "a * 5"] by (simp add: b_def js_mul_def abs_mult)
  have c: "\<bar>c - b / 9\<bar> \<le> \<bar>b\<bar> / 9 * u"
    using binary64_relative [of "b / 9"] by (simp add: c_def js_div_def u_def)
  have "\<bar>t - 32\<bar> * u \<le> (\<bar>t\<bar> + 32) * u"
    using t u by (rule mult_right_mono)
  with a have a2: "\<bar>a - (t - 32)\<bar> \<le> (\<bar>t\<bar> + 32) * u" by linarith
  have "5 * \<bar>a\<bar> * u \<le> (10 * \<bar>t\<bar> + 320) * u"
    using a' u by (intro mult_right_mono) simp_all
  with b have b2: "\<bar>b - a * 5\<bar> \<le> (10 * \<bar>t\<bar> + 320) * u" by linarith
  have "\<bar>b\<bar> / 9 \<le> (20 * \<bar>t\<bar> + 640) / 9"
    using a' b' by simp
  then have "\<bar>b\<bar> / 9 * u \<le> (20 * \<bar>t\<bar> + 640) / 9 * u"
    using u by (rule mult_right_mono)
  with c have c2: "\<bar>c - b / 9\<bar> \<le> (20 * \<bar>t\<bar> + 640) / 9 * u" by linarith
  define d where "d = a - (t - 32)"
  define e where "e = b - a * 5"
  have split: "c - (t - 32) * 5 / 9 = (c - b / 9) + e / 9 + d * 5 / 9"
    by (simp add: d_def e_def field_simps)
  have "\<bar>(c - b / 9) + e / 9 + d * 5 / 9\<bar> \<le> \<bar>c - b / 9\<bar> + \<bar>e\<bar> / 9 + \<bar>d\<bar> * 5 / 9"
    by linarith
  then have "\<bar>c - (t - 32) * 5 / 9\<bar>
      \<le> \<bar>c - b / 9\<bar> + \<bar>b - a * 5\<bar> / 9 + \<bar>a - (t - 32)\<bar> * 5 / 9"
    by (simp only: split d_def e_def)
  also have "\<dots> \<le> (20 * \<bar>t\<bar> + 640) / 9 * u + (10 * \<bar>t\<bar> + 320) * u / 9 + (\<bar>t\<bar> + 32) * u * 5 / 9"
    using a2 b2 c2 by linarith
  also have "\<dots> = (35 * \<bar>t\<bar> + 1120) / 9 * u"
    by (simp add: field_simps)
  also have "\<dots> \<le> (4 * \<bar>t\<bar> + 125) * u"
    using u by (intro mult_right_mono) simp_all
  finally show ?thesis
    by (simp add: a_def b_def c_def u_def)
qed

subsection \<open>Arithmetic of the table's temperatures\<close>

lemma mul_15: "js_mul 15 9 = 135" by code_simp
lemma div_135: "js_div 135 5 = 27" by code_simp
lemma add_27: "js_add 27 32 = 59" by code_simp
lemma fix_59: "parseFloat_toFixed1 59 = 59" by code_simp
lemma fix_15: "parseFloat_toFixed1 15 = 15" by code_simp
lemma fix_12: "parseFloat_toFixed1 12 = 12" by code_simp
lemma fix_22: "parseFloat_toFixed1 22 = 22" by code_simp

lemma mul_12: "js_mul 12 9 = 108" by code_simp
lemma div_108: "js_div 108 5 = 3039929748475085 / 140737488355328" by code_simp
lemma add_london: "js_add (3039929748475085 / 140737488355328) 32 = 7543529375845581 / 140737488355328" by code_simp
lemma fix_london: "parseFloat_toFixed1 (7543529375845581 / 140737488355328) = 7543529375845581 / 140737488355328" by code_simp
lemma binary64_london: "binary64 (268 / 5) = 7543529375845581 / 140737488355328" by code_simp

lemma mul_22: "js_mul 22 9 = 198" by code_simp
lemma div_198: "js_div 198 5 = 5573204538870989 / 140737488355328" by code_simp
lemma add_tokyo: "js_add (5573204538870989 / 140737488355328) 32 = 2519201041560371 / 35184372088832" by code_simp
lemma fix_tokyo: "parseFloat_toFixed1 (2519201041560371 / 35184372088832) = 2519201041560371 / 35184372088832" by code_simp
lemma binary64_tokyo: "binary64 (358 / 5) = 2519201041560371 / 35184372088832" by code_simp

lemma binary64_59: "binary64 59 = 59" by code_simp

lemma display_paris_imperial:
  "display \<lparr>temperature = 15, description = d, humidity = h, unit = Metric\<rparr> Imperial = (59, Imperial)"
  by (simp add: display_def mul_15 div_135 add_27 fix_59)

lemma display_london_imperial:
  "display \<lparr>temperature = 12, description = d, humidity = h, unit = Metric\<rparr> Imperial
     = (7543529375845581 / 140737488355328, Imperial)"
  by (simp add: display_def mul_12 div_108 add_london fix_london)

lemma display_tokyo_imperial:
  "display \<lparr>temperature = 22, description = d, humidity = h, unit = Metric\<rparr> Imperial
     = (2519201041560371 / 35184372088832, Imperial)"
  by (simp add: display_def mul_22 div_198 add_tokyo fix_tokyo)

lemma display_same_unit:
  "display weather (unit weather) = (parseFloat_toFixed1 (temperature weather), unit weather)"
  by (cases "unit weather") (simp_all add: display_def)

lemma spec_paris: "one_decimal (affine_transform Metric Imperial 15) = 59"
  by (simp add: one_decimal_def affine_transform_def)
lemma spec_london: "one_decimal (affine_transform Metric Imperial 12) = 268 / 5"
  by (simp add: one_decimal_def affine_transform_def)
lemma spec_tokyo: "one_decimal (affine_transform Metric Imperial 22) = 358 / 5"
  by (simp add: one_decimal_def affine_transform_def)


subsection \<open>The rounding at work\<close>

text \<open>
  Two checks of the arithmetic against what a JavaScript engine prints: the sum of 0.1 and
  0.2 is not 0.3, and 98.6 degrees Fahrenheit are shown as 37 degrees Celsius (the product
  by 5 is a tie that goes to the even significand, 333).
\<close>

lemma binary64_tenth: "binary64 (1 / 10) = 3602879701896397 / 36028797018963968" by code_simp
lemma binary64_fifth: "binary64 (1 / 5) = 3602879701896397 / 18014398509481984" by code_simp
lemma add_tenth_fifth:
  "js_add (3602879701896397 / 36028797018963968) (3602879701896397 / 18014398509481984)
     = 1351079888211149 / 4503599627370496" by code_simp
lemma binary64_three_tenths: "binary64 (3 / 10) = 5404319552844595 / 18014398509481984" by code_simp

lemma sum_of_tenths_is_rounded:
  "js_add (binary64 (1 / 10)) (binary64 (1 / 5)) \<noteq> binary64 (3 / 10)"
  by (simp add: binary64_tenth binary64_fifth add_tenth_fifth binary64_three_tenths)

lemma binary64_986: "binary64 (493 / 5) = 3469179087958835 / 35184372088832" by code_simp
lemma sub_986: "js_sub (3469179087958835 / 35184372088832) 32 = 2343279181116211 / 35184372088832" by code_simp
lemma mul_666: "js_mul (2343279181116211 / 35184372088832) 5 = 333" by code_simp
lemma div_333: "js_div 333 9 = 37" by code_simp
lemma fix_37: "parseFloat_toFixed1 37 = 37" by code_simp

lemma display_986_metric:
  "display \<lparr>temperature = binary64 (493 / 5), description = d, humidity = h, unit = Imperial\<rparr> Metric
     = (37, Metric)"
  by (simp add: display_def binary64_986 sub_986 mul_666 div_333 fix_37)

subsection \<open>Records outside the table\<close>

text \<open>
  The conversion at records that the table does not hold, where the rounding to one
  decimal place changes the number: 0 degrees Fahrenheit are shown as -17.8 degrees
  Celsius, 36.6 degrees Celsius as 97.9 degrees Fahrenheit. At -17.25 degrees Celsius the
  exact transform is 0.95; the computed one is a little less and is shown as 0.9.
\<close>

lemma sub_0F: "js_sub 0 32 = - 32" by code_simp
lemma mul_0F: "js_mul (- 32) 5 = - 160" by code_simp
lemma div_0F: "js_div (- 160) 9 = - (2501999792983609 / 140737488355328)" by code_simp
lemma fix_0F:
  "parseFloat_toFixed1 (- (2501999792983609 / 140737488355328))
     = - (5010254585449677 / 281474976710656)" by code_simp
lemma binary64_0F: "binary64 (- (89 / 5)) = - (5010254585449677 / 281474976710656)" by code_simp

lemma display_0F_metric:
  "display \<lparr>temperature = 0, description = d, humidity = h, unit = Imperial\<rparr> Metric
     = (binary64 (- (89 / 5)), Metric)"
  by (simp add: display_def sub_0F mul_0F div_0F fix_0F binary64_0F)

lemma binary64_366: "binary64 (183 / 5) = 5150992073805005 / 140737488355328" by code_simp
lemma mul_366: "js_mul (5150992073805005 / 140737488355328) 9 = 5794866083030631 / 17592186044416" by code_simp
lemma div_366: "js_div (5794866083030631 / 17592186044416) 5 = 4635892866424505 / 70368744177664" by code_simp
lemma add_366: "js_add (4635892866424505 / 70368744177664) 32 = 6887692680109753 / 70368744177664" by code_simp
lemma fix_366:
  "parseFloat_toFixed1 (6887692680109753 / 70368744177664) = 3444550027496653 / 35184372088832" by code_simp
lemma binary64_979: "binary64 (979 / 10) = 3444550027496653 / 35184372088832" by code_simp

lemma display_366_imperial:
  "display \<lparr>temperature = binary64 (183 / 5), description = d, humidity = h, unit = Metric\<rparr> Imperial
     = (binary64 (979 / 10), Imperial)"
  by (simp add: display_def binary64_366 mul_366 div_366 add_366 fix_366 binary64_979)

lemma mul_1725: "js_mul (- (69 / 4)) 9 = - (621 / 4)" by code_simp
lemma div_1725: "js_div (- (621 / 4)) 5 = - (8739798026865869 / 281474976710656)" by code_simp
lemma add_1725: "js_add (- (8739798026865869 / 281474976710656)) 32 = 267401227875123 / 281474976710656" by code_simp
lemma fix_1725:
  "parseFloat_toFixed1 (267401227875123 / 281474976710656) = 8106479329266893 / 9007199254740992" by code_simp
lemma binary64_09: "binary64 (9 / 10) = 8106479329266893 / 9007199254740992" by code_simp

lemma display_1725_imperial:
  "display \<lparr>temperature = - (69 / 4), description = d, humidity = h, unit = Metric\<rparr> Imperial
     = (binary64 (9 / 10), Imperial)"
  by (simp add: display_def mul_1725 div_1725 add_1725 fix_1725 binary64_09)

subsection \<open>The rounding of any record\<close>

text \<open>
  For every record and every requested unit, the temperature shown is the binary64 number
  of a decimal with one fractional digit, and that decimal is within half a tenth, and
  the error of the conversion, of the exact affine transform.
\<close>

lemma parseFloat_toFixed1_rounds:
  assumes "\<bar>x\<bar> < 10 ^ 21"
  shows "\<exists>n. parseFloat_toFixed1 x = binary64 (of_int n / 10) \<and> \<bar>of_int n / 10 - x\<bar> \<le> 1 / 20"
  using assms toFixed1_near [of x] by (auto simp: parseFloat_toFixed1_def)

lemma display_rounds:
  assumes "\<bar>temperature weather\<bar> \<le> 10 ^ 20"
  shows "\<exists>n. display weather requested = (binary64 (of_int n / 10), requested)
             \<and> \<bar>of_int n / 10 - affine_transform (unit weather) requested (temperature weather)\<bar>
                 \<le> 1 / 20 + (13 * \<bar>temperature weather\<bar> + 125) / 2 ^ 53"
proof -
  define t where "t = temperature weather"
  define c where "c =
    (if requested = Imperial \<and> unit weather = Metric then js_add (js_div (js_mul t 9) 5) 32
     else if requested = Metric \<and> unit weather = Imperial then js_div (js_mul (js_sub t 32) 5) 9
     else t)"
  define E where "E = affine_transform (unit weather) requested t"
  have t: "\<bar>t\<bar> \<le> 10 ^ 20" using assms by (simp add: t_def)
  have shown: "display weather requested = (parseFloat_toFixed1 c, requested)"
    by (cases requested; cases "unit weather") (simp_all add: display_def c_def t_def)
  have err: "\<bar>c - E\<bar> \<le> (13 * \<bar>t\<bar> + 125) / 2 ^ 53"
  proof (cases "requested = Imperial \<and> unit weather = Metric")
    case True
    then have "\<bar>c - E\<bar> \<le> (13 * \<bar>t\<bar> + 32) / 2 ^ 53"
      using celsius_to_fahrenheit_error [of t] by (simp add: c_def E_def affine_transform_def)
    also have "\<dots> \<le> (13 * \<bar>t\<bar> + 125) / 2 ^ 53"
      by (simp add: divide_right_mono)
    finally show ?thesis .
  next
    case False
    show ?thesis
    proof (cases "requested = Metric \<and> unit weather = Imperial")
      case True
      then have "\<bar>c - E\<bar> \<le> (4 * \<bar>t\<bar> + 125) / 2 ^ 53"
        using fahrenheit_to_celsius_error [of t] by (simp add: c_def E_def affine_transform_def)
      also have "\<dots> \<le> (13 * \<bar>t\<bar> + 125) / 2 ^ 53"
        by (simp add: divide_right_mono)
      finally show ?thesis .
    next
      case False
      with \<open>\<not> (requested = Imperial \<and> unit weather = Metric)\<close>
      have "c = t" and "E = t"
        by (auto simp: c_def E_def affine_transform_def)
      then show ?thesis by simp
    qed
  qed
  have "\<bar>E\<bar> \<le> 2 * \<bar>t\<bar> + 32"
    by (auto simp: E_def affine_transform_def)
  moreover have "(13 * \<bar>t\<bar> + 125) / 2 ^ 53 \<le> \<bar>t\<bar> + 1"
    by (simp add: divide_le_eq)
  moreover have "\<bar>t\<bar> \<le> 100000000000000000000"
    using t by simp
  ultimately have "\<bar>c\<bar> < 1000000000000000000000"
    using err by linarith
  then have "\<bar>c\<bar> < 10 ^ 21" by simp
  from parseFloat_toFixed1_rounds [OF this] obtain n where
    n: "parseFloat_toFixed1 c = binary64 (of_int n / 10)" "\<bar>of_int n / 10 - c\<bar> \<le> 1 / 20"
    by blast
  from n(2) err have "\<bar>of_int n / 10 - E\<bar> \<le> 1 / 20 + (13 * \<bar>t\<bar> + 125) / 2 ^ 53"
    by linarith
  with shown n(1) show ?thesis
    by (auto simp: E_def t_def)
qed

subsection \<open>The handler on a known city, on a miss and on an inherited name\<close>

lemma arg_unit_inputSchema: "arg_unit (inputSchema raw) = requested_unit raw"
  by (simp add: inputSchema_def requested_unit_def)

lemma arg_city_inputSchema: "arg_city (inputSchema raw) = toLowerCase (raw_city raw)"
  by (simp add: inputSchema_def)

lemma result_of_known_city:
  assumes "dummyWeatherData (toLowerCase (arg_city args)) = Some weather"
  shows "snd (get_city_weather args) =
           Inr \<lparr>isError = None,
                content =
                  [Text [Str (''The weather in '' @ arg_city args @ '' is ''),
                         Num (fst (display weather (arg_unit args))),
                         Str ([CHR 0xB0] @ (if snd (display weather (arg_unit args)) = Metric then ''C'' else ''F'')
                              @ '', '' @ description weather @ '' with ''),
                         Num (humidity weather),
                         Str ''% humidity.'']],
                structuredContent =
                  Some \<lparr>s_city = arg_city args, s_temperature = fst (display weather (arg_unit args)),
                        s_unit = snd (display weather (arg_unit args)),
                        s_description = description weather, s_humidity = humidity weather\<rparr>\<rparr>"
  using assms by (simp add: get_city_weather_def Let_def js_get_own split: prod.splits)

lemma result_of_miss:
  assumes "js_get dummyWeatherData (toLowerCase (arg_city args)) = Undefined"
  shows "snd (get_city_weather args) =
           Inr \<lparr>isError = Some True,
                content = [Text [Str (''Sorry, I don't have weather data for '' @ arg_city args @ ''.'')]],
                structuredContent = None\<rparr>"
  using assms by (simp add: get_city_weather_def Let_def)

lemma result_of_inherited:
  assumes "js_get dummyWeatherData (toLowerCase (arg_city args)) = Inherited"
  shows "snd (get_city_weather args) = Inl TypeError"
  using assms by (simp add: get_city_weather_def Let_def)

lemma structured_of_known_city:
  assumes "dummyWeatherData (toLowerCase (raw_city raw)) = Some weather"
  shows "\<exists>r. snd (call_get_city_weather raw) = Inr r \<and> isError r = None
           \<and> structuredContent r =
                Some \<lparr>s_city = toLowerCase (raw_city raw),
                      s_temperature = fst (display weather (requested_unit raw)),
                      s_unit = snd (display weather (requested_unit raw)),
                      s_description = description weather, s_humidity = humidity weather\<rparr>"
proof -
  have "dummyWeatherData (toLowerCase (arg_city (inputSchema raw))) = Some weather"
    using assms by (simp add: arg_city_inputSchema toLowerCase_idem)
  from result_of_known_city [OF this] show ?thesis
    by (simp add: call_get_city_weather_def arg_city_inputSchema arg_unit_inputSchema)
qed

lemma snd_display: "snd (display weather requested) =
    (if requested = Imperial \<and> unit weather = Metric then Imperial
     else if requested = Metric \<and> unit weather = Imperial then Metric else unit weather)"
  by (simp add: display_def)

lemma snd_display_requested: "snd (display weather requested) = requested"
  by (cases requested; cases "unit weather") (simp_all add: snd_display)

lemma display_table_converted:
  assumes "dummyWeatherData key = Some weather" and "unit weather \<noteq> requested"
  shows "fst (display weather requested) =
           binary64 (one_decimal (affine_transform (unit weather) requested (temperature weather)))"
proof -
  from assms(2) known_city_cases [OF assms(1)] have req: "requested = Imperial" and "unit weather = Metric"
    by (cases requested; auto)+
  from known_city_cases [OF assms(1)] show ?thesis
  proof (elim disjE conjE)
    assume "weather = \<lparr>temperature = 15, description = ''Cloudy'', humidity = 70, unit = Metric\<rparr>"
    then show ?thesis
      by (simp add: req display_paris_imperial spec_paris binary64_59)
  next
    assume "weather = \<lparr>temperature = 12, description = ''Rainy'', humidity = 85, unit = Metric\<rparr>"
    then show ?thesis
      by (simp add: req display_london_imperial spec_london binary64_london)
  next
    assume "weather = \<lparr>temperature = 22, description = ''Sunny'', humidity = 60, unit = Metric\<rparr>"
    then show ?thesis
      by (simp add: req display_tokyo_imperial spec_tokyo binary64_tokyo)
  qed
qed

lemma display_table_same:
  assumes "dummyWeatherData key = Some weather"
  shows "parseFloat_toFixed1 (temperature weather) = temperature weather"
  using known_city_cases [OF assms] by (auto simp: fix_15 fix_12 fix_22)

subsection \<open>Values used in the examples\<close>

lemma lower_London: "toLowerCase ''London'' = ''london''" by code_simp
lemma lower_Tokyo: "toLowerCase ''Tokyo'' = ''tokyo''" by code_simp
lemma lower_Paris: "toLowerCase ''Paris'' = ''paris''" by code_simp
lemma lower_PaRiS: "toLowerCase ''PaRiS'' = ''paris''" by code_simp
lemma lower_paris: "toLowerCase ''paris'' = ''paris''" by code_simp
lemma lower_constructor: "toLowerCase ''constructor'' = ''constructor''" by code_simp

lemma mul_0: "js_mul 0 9 = 0" by code_simp
lemma div_0: "js_div 0 5 = 0" by code_simp
lemma add_0: "js_add 0 32 = 32" by code_simp
lemma fix_32: "parseFloat_toFixed1 32 = 32" by code_simp
lemma mul_100: "js_mul 100 9 = 900" by code_simp
lemma div_900: "js_div 900 5 = 180" by code_simp
lemma add_180: "js_add 180 32 = 212" by code_simp
lemma fix_212: "parseFloat_toFixed1 212 = 212" by code_simp

lemma display_0_imperial:
  "display \<lparr>temperature = 0, description = d, humidity = h, unit = Metric\<rparr> Imperial = (32, Imperial)"
  by (simp add: display_def mul_0 div_0 add_0 fix_32)

lemma display_100_imperial:
  "display \<lparr>temperature = 100, description = d, humidity = h, unit = Metric\<rparr> Imperial = (212, Imperial)"
  by (simp add: display_def mul_100 div_900 add_180 fix_212)

subsection \<open>A call of the tool\<close>

lemma lookup_of_call:
  "js_get dummyWeatherData (toLowerCase (arg_city (inputSchema raw)))
     = js_get dummyWeatherData (toLowerCase (raw_city raw))"
  by (simp add: arg_city_inputSchema toLowerCase_idem)

lemma call_miss:
  assumes "dummyWeatherData (toLowerCase (raw_city raw)) = None"
    and "toLowerCase (raw_city raw) \<notin> set object_prototype_keys"
  shows "snd (call_get_city_weather raw) =
      Inr \<lparr>isError = Some True,
           content = [Text [Str (''Sorry, I don't have weather data for ''
                                 @ toLowerCase (raw_city raw) @ ''.'')]],
           structuredContent = None\<rparr>"
proof -
  from assms have "js_get dummyWeatherData (toLowerCase (arg_city (inputSchema raw))) = Undefined"
    by (simp add: lookup_of_call js_get_Undefined_iff)
  from result_of_miss [OF this] show ?thesis
    by (simp add: call_get_city_weather_def arg_city_inputSchema)
qed

lemma call_inherited:
  assumes "dummyWeatherData (toLowerCase (raw_city raw)) = None"
    and "toLowerCase (raw_city raw) \<in> set object_prototype_keys"
  shows "snd (call_get_city_weather raw) = Inl TypeError"
proof -
  from assms have "js_get dummyWeatherData (toLowerCase (arg_city (inputSchema raw))) = Inherited"
    by (simp add: lookup_of_call js_get_Inherited_iff)
  from result_of_inherited [OF this] show ?thesis
    by (simp add: call_get_city_weather_def)
qed

lemma returned_result_cases:
  assumes "snd (call_get_city_weather raw) = Inr r"
  shows "(dummyWeatherData (toLowerCase (raw_city raw)) = None
            \<and> isError r = Some True \<and> structuredContent r = None \<and> (\<exists>parts. content r = [Text parts]))
       \<or> (dummyWeatherData (toLowerCase (raw_city raw)) \<noteq> None
            \<and> isError r = None \<and> structuredContent r \<noteq> None \<and> (\<exists>parts. content r = [Text parts]))"
proof (cases "dummyWeatherData (toLowerCase (raw_city raw))")
  case None
  show ?thesis
  proof (cases "toLowerCase (raw_city raw) \<in> set object_prototype_keys")
    case True
    from call_inherited [OF None True] assms show ?thesis by simp
  next
    case False
    from call_miss [OF None False] assms None show ?thesis by auto
  qed
next
  case (Some weather)
  then have "dummyWeatherData (toLowerCase (arg_city (inputSchema raw))) = Some weather"
    by (simp add: arg_city_inputSchema toLowerCase_idem)
  from result_of_known_city [OF this] assms Some show ?thesis
    by (auto simp: call_get_city_weather_def)
qed

subsection \<open>Identifiers\<close>

lemma is_uuid_length: "is_uuid str \<Longrightarrow> length str = 36"
proof -
  assume "is_uuid str"
  then have "length (map uuid_shape str) = length ''xxxxxxxx-xxxx-xxxx-xxxx-xxxxxxxxxxxx''"
    by (simp only: is_uuid_def)
  then show ?thesis by simp
qed

lemma is_uuid_plain: "is_uuid str \<Longrightarrow> str \<noteq> [] \<and> str \<notin> set object_prototype_keys"
  by (auto dest!: is_uuid_length simp: object_prototype_keys_def)

subsection \<open>The handler and the registry\<close>

lemma mcp_handler_registry:
  "activeTransports (snd (mcp_handler isInitializeRequest handleRequest req s)) = activeTransports s"
  by (simp add: mcp_handler_def Let_def)

lemma mcp_handler_sessionId:
  "sessionId (snd (mcp_handler isInitializeRequest handleRequest req s)) = sessionId s"
  by (simp add: mcp_handler_def Let_def)

lemma mcp_handler_not_found:
  assumes "mcp_session_id req = Some sid" and "sid \<noteq> []" and "sid \<notin> set object_prototype_keys"
    and "activeTransports s sid = None"
  shows "mcp_handler isInitializeRequest handleRequest req s = (Replied (session_not_found req), s)"
  using assms by (simp add: mcp_handler_def Let_def truthy_string_def js_get_Undefined_iff)

lemma onclose_registry:
  "activeTransports (onclose t s) key = None \<longleftrightarrow>
     activeTransports s key = None
     \<or> (sessionId s t = Some key \<and> key \<noteq> [])"
  by (auto simp: onclose_def js_get_Undefined_iff split: option.splits)

lemma onclose_removes:
  assumes "sessionId s t = Some sid" and "sid \<noteq> []"
  shows "activeTransports (onclose t s) sid = None"
  using assms by (simp add: onclose_registry)

lemma onclose_sessionId: "sessionId (onclose t s) = sessionId s"
  by (simp add: onclose_def split: option.splits)

lemma onclose_idem: "onclose t (onclose t s) = onclose t s"
  by (auto simp: onclose_def js_get_def split: option.splits)

lemma fst_step_Request:
  "fst (step isInitializeRequest (Request req handleRequest) s)
     = Some (fst (mcp_handler isInitializeRequest handleRequest req s))"
  by (simp add: case_prod_beta)

lemma snd_step_Request:
  "snd (step isInitializeRequest (Request req handleRequest) s)
     = snd (mcp_handler isInitializeRequest handleRequest req s)"
  by (simp add: case_prod_beta)

lemma fst_run_Cons:
  "fst (run isInitializeRequest (e # es) s)
     = fst (step isInitializeRequest e s)
       # fst (run isInitializeRequest es (snd (step isInitializeRequest e s)))"
  by (simp add: case_prod_beta)

lemma snd_run_Cons:
  "snd (run isInitializeRequest (e # es) s)
     = snd (run isInitializeRequest es (snd (step isInitializeRequest e s)))"
  by (simp add: case_prod_beta)

lemma step_keeps_absent:
  assumes "activeTransports s sid = None" and "\<not> issues sid e"
  shows "activeTransports (snd (step isInitializeRequest e s)) sid = None"
proof (cases e)
  case (Request req handleRequest)
  with assms(1) show ?thesis
    by (simp only: snd_step_Request mcp_handler_registry)
next
  case (SessionInitialized t' sid')
  with assms show ?thesis by (simp add: onsessioninitialized_def)
next
  case (Closed t')
  with assms(1) show ?thesis by (simp add: onclose_registry)
qed

lemma length_run: "length (fst (run isInitializeRequest es s)) = length es"
proof (induction es arbitrary: s)
  case Nil
  show ?case by simp
next
  case (Cons e es)
  then show ?case by (simp only: fst_run_Cons list.size)
qed

lemma run_keeps_absent:
  assumes "activeTransports s sid = None" and "\<not> list_ex (issues sid) es"
  shows "activeTransports (snd (run isInitializeRequest es s)) sid = None"
  using assms
proof (induction es arbitrary: s)
  case Nil
  then show ?case by simp
next
  case (Cons e es)
  from Cons.prems have "activeTransports (snd (step isInitializeRequest e s)) sid = None"
    by (simp add: step_keeps_absent)
  moreover from Cons.prems have "\<not> list_ex (issues sid) es" by simp
  ultimately have "activeTransports (snd (run isInitializeRequest es (snd (step isInitializeRequest e s)))) sid = None"
    by (rule Cons.IH)
  then show ?case by (simp only: snd_run_Cons)
qed

lemma run_rejects:
  assumes "activeTransports s sid = None" and "\<not> list_ex (issues sid) es"
    and "sid \<noteq> []" and "sid \<notin> set object_prototype_keys"
    and "i < length es" and "es ! i = Request req handleRequest" and "mcp_session_id req = Some sid"
  shows "fst (run isInitializeRequest es s) ! i = Some (Replied (session_not_found req))"
  using assms(1,2,5,6)
proof (induction es arbitrary: s i)
  case Nil
  then show ?case by simp
next
  case (Cons e es)
  show ?case
  proof (cases i)
    case 0
    with Cons.prems have "e = Request req handleRequest" by simp
    with Cons.prems(1) assms(3,4,7) show ?thesis
      by (simp add: 0 fst_run_Cons fst_step_Request mcp_handler_not_found del: run.simps step.simps)
  next
    case (Suc j)
    from Cons.prems have absent: "activeTransports (snd (step isInitializeRequest e s)) sid = None"
      by (simp add: step_keeps_absent)
    from Cons.prems Suc have "\<not> list_ex (issues sid) es" "j < length es" "es ! j = Request req handleRequest"
      by simp_all
    from Cons.IH [OF absent this]
    show ?thesis by (simp add: Suc fst_run_Cons del: run.simps step.simps)
  qed
qed

lemma empty_identifier_is_absent:
  "mcp_handler isInitializeRequest handleRequest (req\<lparr>mcp_session_id := Some []\<rparr>) s
     = mcp_handler isInitializeRequest handleRequest (req\<lparr>mcp_session_id := None\<rparr>) s"
  by (simp add: mcp_handler_def Let_def truthy_string_def try_handleRequest_def bad_request_def
        internal_server_error_def request_id_def split: handle_result.splits)

lemma initial_registry: "activeTransports initial_state sid = None"
  by (simp add: initial_state_def)

subsection \<open>The example state and its identifiers\<close>

lemma uuid_a: "is_uuid ''36b8f84d-df4e-4d49-b662-bcde71a8764f''"
  by (simp add: is_uuid_def uuid_shape_def)

lemma uuid_b: "is_uuid ''1b9d6bcd-bbfd-4b2d-9b5d-ab8dfbbd4bed''"
  by (simp add: is_uuid_def uuid_shape_def)

lemma run_to_one_session:
  "snd (run example_isInitializeRequest
          [Request \<lparr>http_method = ''POST'', mcp_session_id = None, body = Some initialize_body\<rparr>
             always_returns,
           SessionInitialized 0 ''36b8f84d-df4e-4d49-b662-bcde71a8764f'']
          initial_state) = one_session"
  by (simp add: mcp_handler_def Let_def truthy_string_def initial_state_def one_session_def
        onsessioninitialized_def example_isInitializeRequest_def initialize_body_def
        is_string_def is_object_def try_handleRequest_def always_returns_def)

section \<open>The claims about the weather tool\<close>

text \<open>
  C4. For every city of the table, in any casing, and every requested unit (metric when
  the call names none): the structured payload holds the temperature and the unit that
  \<open>display\<close> computes from the record; its unit field is the requested unit, which is
  the unit of the returned number; and when the record's own unit differs from it, the
  returned temperature is the binary64 number nearest to the affine transform of the
  record's temperature rounded to one decimal place.
  The conversion itself, for any record (with a temperature of at most \<open>10\<^sup>2\<^sup>0\<close> in
  absolute value) and any requested unit, in both directions: the temperature shown is the
  binary64 number of a decimal \<open>n / 10\<close>, and \<open>n / 10\<close> differs from the exact affine
  transform by at most half a tenth and the rounding error of the three operations.
  Records of 0 and 100 degrees Celsius are shown as 32 and 212 in imperial units, 36.6
  degrees Celsius as 97.9; 98.6 degrees Fahrenheit are shown as 37 in metric units, 0
  degrees Fahrenheit as -17.8.
\<close>

theorem requested_unit_conversion:
  assumes "dummyWeatherData (toLowerCase (raw_city raw)) = Some weather"
  shows "(\<exists>r out. snd (call_get_city_weather raw) = Inr r \<and> structuredContent r = Some out
            \<and> (s_temperature out, s_unit out) = display weather (requested_unit raw)
            \<and> s_unit out = requested_unit raw
            \<and> (unit weather \<noteq> requested_unit raw \<longrightarrow>
                 s_temperature out =
                   binary64 (one_decimal (affine_transform (unit weather) (requested_unit raw)
                                            (temperature weather)))))
       \<and> arg_unit (inputSchema raw) = requested_unit raw
       \<and> (\<bar>temperature w\<bar> \<le> 10 ^ 20 \<longrightarrow>
            (\<exists>n. display w requested = (binary64 (of_int n / 10), requested)
                 \<and> \<bar>of_int n / 10 - affine_transform (unit w) requested (temperature w)\<bar>
                     \<le> 1 / 20 + (13 * \<bar>temperature w\<bar> + 125) / 2 ^ 53))
       \<and> display \<lparr>temperature = 0, description = d, humidity = h, unit = Metric\<rparr> Imperial
           = (32, Imperial)
       \<and> display \<lparr>temperature = 100, description = d, humidity = h, unit = Metric\<rparr> Imperial
           = (212, Imperial)
       \<and> display \<lparr>temperature = binary64 (183 / 5), description = d, humidity = h, unit = Metric\<rparr>
             Imperial
           = (binary64 (979 / 10), Imperial)
       \<and> display \<lparr>temperature = binary64 (493 / 5), description = d, humidity = h, unit = Imperial\<rparr>
             Metric
           = (37, Metric)
       \<and> display \<lparr>temperature = 0, description = d, humidity = h, unit = Imperial\<rparr> Metric
           = (binary64 (- (89 / 5)), Metric)"
proof -
  from structured_of_known_city [OF assms] obtain r where
    r: "snd (call_get_city_weather raw) = Inr r"
       "structuredContent r =
          Some \<lparr>s_city = toLowerCase (raw_city raw),
                s_temperature = fst (display weather (requested_unit raw)),
                s_unit = snd (display weather (requested_unit raw)),
                s_description = description weather, s_humidity = humidity weather\<rparr>"
    by blast
  have "unit weather \<noteq> requested_unit raw \<longrightarrow>
          fst (display weather (requested_unit raw)) =
            binary64 (one_decimal (affine_transform (unit weather) (requested_unit raw)
                                     (temperature weather)))"
    using display_table_converted [OF assms] by blast
  moreover have "display weather (requested_unit raw)
      = (fst (display weather (requested_unit raw)), requested_unit raw)"
    by (simp add: prod_eq_iff snd_display_requested)
  ultimately have table: "\<exists>r out. snd (call_get_city_weather raw) = Inr r \<and> structuredContent r = Some out
            \<and> (s_temperature out, s_unit out) = display weather (requested_unit raw)
            \<and> s_unit out = requested_unit raw
            \<and> (unit weather \<noteq> requested_unit raw \<longrightarrow>
                 s_temperature out =
                   binary64 (one_decimal (affine_transform (unit weather) (requested_unit raw)
                                            (temperature weather))))"
    using r by (simp add: snd_display_requested)
  have rounds: "\<bar>temperature w\<bar> \<le> 10 ^ 20 \<longrightarrow>
            (\<exists>n. display w requested = (binary64 (of_int n / 10), requested)
                 \<and> \<bar>of_int n / 10 - affine_transform (unit w) requested (temperature w)\<bar>
                     \<le> 1 / 20 + (13 * \<bar>temperature w\<bar> + 125) / 2 ^ 53)"
    using display_rounds [of w requested] by blast
  from table rounds show ?thesis
    by (simp only: arg_unit_inputSchema display_0_imperial display_100_imperial
          display_366_imperial display_986_metric display_0F_metric simp_thms)
qed

text \<open>
  London in imperial units: 53.6, as the double nearest to it. And the record of -17.25
  degrees Celsius, whose exact transform 0.95 lies midway between two decimals: the
  temperature shown is one of them.
\<close>

theorem requested_unit_conversion_witness:
  "dummyWeatherData (toLowerCase ''London'')
     = Some \<lparr>temperature = 12, description = ''Rainy'', humidity = 85, unit = Metric\<rparr>
   \<and> (\<exists>r out. snd (call_get_city_weather \<lparr>raw_city = ''London'', raw_unit = Some Imperial\<rparr>) = Inr r
          \<and> structuredContent r = Some out \<and> s_unit out = Imperial
          \<and> s_temperature out = 7543529375845581 / 140737488355328)
   \<and> \<bar>temperature \<lparr>temperature = - (69 / 4), description = ''Frost'', humidity = 50, unit = Metric\<rparr>\<bar>
       \<le> 10 ^ 20
   \<and> (\<exists>n. display \<lparr>temperature = - (69 / 4), description = ''Frost'', humidity = 50, unit = Metric\<rparr>
               Imperial
             = (binary64 (of_int n / 10), Imperial)
          \<and> \<bar>of_int n / 10 - (19 / 20 :: rat)\<bar> \<le> 1 / 20 + (13 * (69 / 4) + 125) / 2 ^ 53)"
proof -
  let ?frost = "\<lparr>temperature = - (69 / 4), description = ''Frost'', humidity = 50, unit = Metric\<rparr>"
  have known: "dummyWeatherData (toLowerCase (raw_city \<lparr>raw_city = ''London'', raw_unit = Some Imperial\<rparr>))
     = Some \<lparr>temperature = 12, description = ''Rainy'', humidity = 85, unit = Metric\<rparr>"
    by (simp add: lower_London dummyWeatherData_def)
  have small: "\<bar>temperature ?frost\<bar> \<le> 10 ^ 20"
    by simp
  note at_london = requested_unit_conversion [OF known, of ?frost Imperial "[]" 0]
  from at_london
  have "\<exists>r out. snd (call_get_city_weather \<lparr>raw_city = ''London'', raw_unit = Some Imperial\<rparr>) = Inr r
          \<and> structuredContent r = Some out
          \<and> (s_temperature out, s_unit out)
              = display \<lparr>temperature = 12, description = ''Rainy'', humidity = 85, unit = Metric\<rparr>
                  (requested_unit \<lparr>raw_city = ''London'', raw_unit = Some Imperial\<rparr>)
          \<and> s_unit out = requested_unit \<lparr>raw_city = ''London'', raw_unit = Some Imperial\<rparr>
          \<and> (unit \<lparr>temperature = 12, description = ''Rainy'', humidity = 85, unit = Metric\<rparr>
                \<noteq> requested_unit \<lparr>raw_city = ''London'', raw_unit = Some Imperial\<rparr> \<longrightarrow>
               s_temperature out =
                 binary64 (one_decimal (affine_transform
                   (unit \<lparr>temperature = 12, description = ''Rainy'', humidity = 85, unit = Metric\<rparr>)
                   (requested_unit \<lparr>raw_city = ''London'', raw_unit = Some Imperial\<rparr>)
                   (temperature \<lparr>temperature = 12, description = ''Rainy'', humidity = 85,
                                  unit = Metric\<rparr>))))"
    by (rule conjunct1)
  then have london: "\<exists>r out.
        snd (call_get_city_weather \<lparr>raw_city = ''London'', raw_unit = Some Imperial\<rparr>) = Inr r
          \<and> structuredContent r = Some out \<and> s_unit out = Imperial
          \<and> s_temperature out = 7543529375845581 / 140737488355328"
    by (auto simp: requested_unit_def spec_london binary64_london)
  from at_london
  have "\<bar>temperature ?frost\<bar> \<le> 10 ^ 20 \<longrightarrow>
          (\<exists>n. display ?frost Imperial = (binary64 (of_int n / 10), Imperial)
               \<and> \<bar>of_int n / 10 - affine_transform (unit ?frost) Imperial (temperature ?frost)\<bar>
                   \<le> 1 / 20 + (13 * \<bar>temperature ?frost\<bar> + 125) / 2 ^ 53)"
    by (rule conjunct2 [THEN conjunct2, THEN conjunct1])
  with small
  have general: "\<exists>n. display ?frost Imperial = (binary64 (of_int n / 10), Imperial)
             \<and> \<bar>of_int n / 10 - affine_transform (unit ?frost) Imperial (temperature ?frost)\<bar>
                 \<le> 1 / 20 + (13 * \<bar>temperature ?frost\<bar> + 125) / 2 ^ 53"
    by (rule rev_mp)
  have exact: "affine_transform (unit ?frost) Imperial (temperature ?frost) = 19 / 20"
    by (simp add: affine_transform_def)
  have size: "\<bar>temperature ?frost\<bar> = 69 / 4"
    by simp
  have frost: "\<exists>n. display ?frost Imperial = (binary64 (of_int n / 10), Imperial)
          \<and> \<bar>of_int n / 10 - (19 / 20 :: rat)\<bar> \<le> 1 / 20 + (13 * (69 / 4) + 125) / 2 ^ 53"
    using general unfolding exact size .
  from known have "dummyWeatherData (toLowerCase ''London'')
     = Some \<lparr>temperature = 12, description = ''Rainy'', humidity = 85, unit = Metric\<rparr>"
    by simp
  with london small frost show ?thesis
    by (intro conjI)
qed

text \<open>
  C6. For every city of the table, in any casing, a call that asks for the unit of the
  record itself converts nothing: the handler shows the record's temperature passed through
  \<^verbatim>\<open>parseFloat(x.toFixed(1))\<close> and the record's unit, that pass leaves the
  temperature as it is, and the structured payload holds the record's temperature and
  unit unchanged.
\<close>

theorem same_unit_round_trip:
  assumes "dummyWeatherData (toLowerCase (raw_city raw)) = Some weather"
    and "requested_unit raw = unit weather"
  shows "display weather (requested_unit raw) = (parseFloat_toFixed1 (temperature weather), unit weather)
       \<and> parseFloat_toFixed1 (temperature weather) = temperature weather
       \<and> (\<exists>r out. snd (call_get_city_weather raw) = Inr r \<and> structuredContent r = Some out
              \<and> s_temperature out = temperature weather \<and> s_unit out = unit weather)"
proof -
  have shown: "display weather (requested_unit raw)
                 = (parseFloat_toFixed1 (temperature weather), unit weather)"
    using assms(2) display_same_unit [of weather] by simp
  have unchanged: "parseFloat_toFixed1 (temperature weather) = temperature weather"
    using display_table_same [OF assms(1)] .
  from structured_of_known_city [OF assms(1)] shown unchanged
  have "\<exists>r out. snd (call_get_city_weather raw) = Inr r \<and> structuredContent r = Some out
              \<and> s_temperature out = temperature weather \<and> s_unit out = unit weather"
    by auto
  with shown unchanged show ?thesis by blast
qed

text \<open>
  The round trip at Tokyo, with the unit left out: the payload holds 22 and metric.
\<close>

theorem same_unit_round_trip_witness:
  "dummyWeatherData (toLowerCase ''Tokyo'')
     = Some \<lparr>temperature = 22, description = ''Sunny'', humidity = 60, unit = Metric\<rparr>
   \<and> requested_unit \<lparr>raw_city = ''Tokyo'', raw_unit = None\<rparr> = Metric
   \<and> (\<exists>r out. snd (call_get_city_weather \<lparr>raw_city = ''Tokyo'', raw_unit = None\<rparr>) = Inr r
          \<and> structuredContent r = Some out \<and> s_temperature out = 22 \<and> s_unit out = Metric)"
proof -
  have known: "dummyWeatherData (toLowerCase (raw_city \<lparr>raw_city = ''Tokyo'', raw_unit = None\<rparr>))
     = Some \<lparr>temperature = 22, description = ''Sunny'', humidity = 60, unit = Metric\<rparr>"
    by (simp add: lower_Tokyo dummyWeatherData_def)
  have same: "requested_unit \<lparr>raw_city = ''Tokyo'', raw_unit = None\<rparr>
     = unit \<lparr>temperature = 22, description = ''Sunny'', humidity = 60, unit = Metric\<rparr>"
    by (simp add: requested_unit_def)
  show ?thesis
    using known same same_unit_round_trip [OF known same] by simp
qed

text \<open>
  C10. For every city of the table, in any casing, and any two requested units (named or
  left out): both calls return a structured payload, the two payloads differ in the
  temperature and unit fields at most, and the description and humidity fields are those
  of the record.
\<close>

theorem unit_changes_only_temperature_and_unit:
  assumes "dummyWeatherData (toLowerCase city) = Some weather"
  shows "\<exists>r out r' out'.
           snd (call_get_city_weather \<lparr>raw_city = city, raw_unit = u\<rparr>) = Inr r
         \<and> structuredContent r = Some out
         \<and> snd (call_get_city_weather \<lparr>raw_city = city, raw_unit = u'\<rparr>) = Inr r'
         \<and> structuredContent r' = Some out'
         \<and> out'\<lparr>s_temperature := s_temperature out, s_unit := s_unit out\<rparr> = out
         \<and> s_description out = description weather
         \<and> s_humidity out = humidity weather"
proof -
  have "dummyWeatherData (toLowerCase (raw_city \<lparr>raw_city = city, raw_unit = u\<rparr>)) = Some weather"
    and "dummyWeatherData (toLowerCase (raw_city \<lparr>raw_city = city, raw_unit = u'\<rparr>)) = Some weather"
    using assms by simp_all
  from structured_of_known_city [OF this(1)] structured_of_known_city [OF this(2)]
  show ?thesis by auto
qed

text \<open>
  Paris in imperial and in metric units: the payloads agree once temperature and unit are
  set equal, and both say Cloudy with a humidity of 70.
\<close>

theorem unit_changes_only_temperature_and_unit_witness:
  "dummyWeatherData (toLowerCase ''Paris'')
     = Some \<lparr>temperature = 15, description = ''Cloudy'', humidity = 70, unit = Metric\<rparr>
   \<and> (\<exists>r out r' out'.
           snd (call_get_city_weather \<lparr>raw_city = ''Paris'', raw_unit = Some Imperial\<rparr>) = Inr r
         \<and> structuredContent r = Some out
         \<and> snd (call_get_city_weather \<lparr>raw_city = ''Paris'', raw_unit = Some Metric\<rparr>) = Inr r'
         \<and> structuredContent r' = Some out'
         \<and> out'\<lparr>s_temperature := s_temperature out, s_unit := s_unit out\<rparr> = out
         \<and> s_description out = ''Cloudy''
         \<and> s_humidity out = 70)"
proof -
  have known: "dummyWeatherData (toLowerCase ''Paris'')
     = Some \<lparr>temperature = 15, description = ''Cloudy'', humidity = 70, unit = Metric\<rparr>"
    by (simp add: lower_Paris dummyWeatherData_def)
  show ?thesis
    using known
      unit_changes_only_temperature_and_unit [OF known, of "Some Imperial" "Some Metric"]
    by simp
qed

text \<open>
  C9. When the city is no key of the table (and its lower-case form names no inherited
  property, so that the handler takes the branch of the missing city), the result is the
  error flag with one text block and no structured payload. And whatever result a call
  returns: it has no structured payload exactly when the city is no key of the table,
  exactly then its error flag is set, and its content is a single text block. So the
  structured payload is there on the success path only.
\<close>

theorem miss_has_no_structured_content:
  "(dummyWeatherData (toLowerCase (raw_city raw)) = None
      \<and> toLowerCase (raw_city raw) \<notin> set object_prototype_keys \<longrightarrow>
    snd (call_get_city_weather raw) =
      Inr \<lparr>isError = Some True,
           content = [Text [Str (''Sorry, I don't have weather data for ''
                                 @ toLowerCase (raw_city raw) @ ''.'')]],
           structuredContent = None\<rparr>)
   \<and> (\<forall>r. snd (call_get_city_weather raw) = Inr r \<longrightarrow>
          (structuredContent r = None \<longleftrightarrow> dummyWeatherData (toLowerCase (raw_city raw)) = None)
        \<and> (structuredContent r = None \<longleftrightarrow> isError r = Some True)
        \<and> (\<exists>parts. content r = [Text parts]))"
proof (intro conjI impI allI)
  assume "dummyWeatherData (toLowerCase (raw_city raw)) = None
      \<and> toLowerCase (raw_city raw) \<notin> set object_prototype_keys"
  then show "snd (call_get_city_weather raw) =
      Inr \<lparr>isError = Some True,
           content = [Text [Str (''Sorry, I don't have weather data for ''
                                 @ toLowerCase (raw_city raw) @ ''.'')]],
           structuredContent = None\<rparr>"
    using call_miss by blast
next
  fix r
  assume "snd (call_get_city_weather raw) = Inr r"
  from returned_result_cases [OF this]
  show "structuredContent r = None \<longleftrightarrow> dummyWeatherData (toLowerCase (raw_city raw)) = None"
    by auto
next
  fix r
  assume "snd (call_get_city_weather raw) = Inr r"
  from returned_result_cases [OF this]
  show "structuredContent r = None \<longleftrightarrow> isError r = Some True"
    by auto
next
  fix r
  assume "snd (call_get_city_weather raw) = Inr r"
  from returned_result_cases [OF this]
  show "\<exists>parts. content r = [Text parts]"
    by auto
qed

text \<open>
  The miss at Atlantis.
\<close>

theorem miss_has_no_structured_content_witness:
  "dummyWeatherData (toLowerCase ''Atlantis'') = None
   \<and> toLowerCase ''Atlantis'' \<notin> set object_prototype_keys
   \<and> snd (call_get_city_weather \<lparr>raw_city = ''Atlantis'', raw_unit = None\<rparr>) =
      Inr \<lparr>isError = Some True,
           content = [Text [Str ''Sorry, I don't have weather data for atlantis.'']],
           structuredContent = None\<rparr>"
proof -
  have lower: "toLowerCase ''Atlantis'' = ''atlantis''" by code_simp
  have unknown: "dummyWeatherData (toLowerCase ''Atlantis'') = None"
    by (simp add: lower dummyWeatherData_def)
  have plain: "toLowerCase ''Atlantis'' \<notin> set object_prototype_keys"
    by (simp add: lower object_prototype_keys_def)
  show ?thesis
    using unknown plain
      miss_has_no_structured_content [of "\<lparr>raw_city = ''Atlantis'', raw_unit = None\<rparr>"]
    by (simp add: lower)
qed

text \<open>
  C5. The claim is that every call with a city that is not in the table returns the
  result with the failure flag and the explanation. The handler does so when the lookup
  is undefined (\<open>call_miss\<close>). For the city \<^verbatim>\<open>constructor\<close> the lookup finds the
  function that every object literal inherits, the branch of the missing city is not
  taken, and the handler throws a \<^verbatim>\<open>TypeError\<close> at \<^verbatim>\<open>toFixed\<close> instead of returning.
\<close>

theorem inherited_name_throws:
  "snd (call_get_city_weather \<lparr>raw_city = ''constructor'', raw_unit = None\<rparr>) = Inl TypeError"
  by (simp add: call_get_city_weather_def inputSchema_def get_city_weather_def Let_def
        lower_constructor js_get_def dummyWeatherData_def object_prototype_keys_def)

text \<open>
  C8. The input schema folds the city to lower case before the handler runs: the handler
  receives the lower-case form. The folding in the lookup of the handler (line 74) leaves
  every city that the handler receives as it is, so nothing is folded there. A call with
  any casing of a city is the call with the lower-case form.
\<close>

theorem case_folding_at_validation:
  "arg_city (inputSchema raw) = toLowerCase (raw_city raw)
   \<and> toLowerCase (arg_city (inputSchema raw)) = arg_city (inputSchema raw)
   \<and> call_get_city_weather raw = call_get_city_weather (raw\<lparr>raw_city := toLowerCase (raw_city raw)\<rparr>)"
proof (intro conjI)
  show "arg_city (inputSchema raw) = toLowerCase (raw_city raw)"
    by (rule arg_city_inputSchema)
  show "toLowerCase (arg_city (inputSchema raw)) = arg_city (inputSchema raw)"
    by (simp add: arg_city_inputSchema toLowerCase_idem)
  show "call_get_city_weather raw = call_get_city_weather (raw\<lparr>raw_city := toLowerCase (raw_city raw)\<rparr>)"
    by (simp add: call_get_city_weather_def inputSchema_def toLowerCase_idem)
qed

text \<open>
  The call with \<^verbatim>\<open>PaRiS\<close> is the call with \<^verbatim>\<open>paris\<close>.
\<close>

theorem case_folding_at_validation_witness:
  "arg_city (inputSchema \<lparr>raw_city = ''PaRiS'', raw_unit = None\<rparr>) = ''paris''
   \<and> toLowerCase (arg_city (inputSchema \<lparr>raw_city = ''PaRiS'', raw_unit = None\<rparr>)) = ''paris''
   \<and> call_get_city_weather \<lparr>raw_city = ''PaRiS'', raw_unit = None\<rparr>
       = call_get_city_weather \<lparr>raw_city = ''paris'', raw_unit = None\<rparr>"
  using case_folding_at_validation [of "\<lparr>raw_city = ''PaRiS'', raw_unit = None\<rparr>"]
  by (simp add: lower_PaRiS lower_paris)

section \<open>The claims about the router and the registry\<close>

text \<open>
  For a request whose identifier is not empty and names no inherited property, the router
  answers with the session-not-found error and leaves the state as it is, whenever the
  registry has no entry for the identifier; so it does in every state that a run from the
  initial state reaches without issuing the identifier.
\<close>

lemma unknown_session_rejected:
  assumes "mcp_session_id req = Some sid" and "sid \<noteq> []"
    and "sid \<notin> set object_prototype_keys"
  shows "(activeTransports s sid = None \<longrightarrow>
            mcp_handler isInitializeRequest handleRequest req s
              = (Replied (session_not_found req), s))
       \<and> (list_all issues_uuid es \<and> \<not> list_ex (issues sid) es \<longrightarrow>
            mcp_handler isInitializeRequest handleRequest req
                (snd (run isInitializeRequest es initial_state))
              = (Replied (session_not_found req), snd (run isInitializeRequest es initial_state)))
       \<and> status (session_not_found req) = 404 \<and> code (session_not_found req) = - 32001"
proof (intro conjI impI)
  assume "activeTransports s sid = None"
  with assms show "mcp_handler isInitializeRequest handleRequest req s
              = (Replied (session_not_found req), s)"
    by (rule mcp_handler_not_found)
next
  assume "list_all issues_uuid es \<and> \<not> list_ex (issues sid) es"
  then have "activeTransports (snd (run isInitializeRequest es initial_state)) sid = None"
    by (simp add: run_keeps_absent initial_registry)
  with assms show "mcp_handler isInitializeRequest handleRequest req
                (snd (run isInitializeRequest es initial_state))
              = (Replied (session_not_found req), snd (run isInitializeRequest es initial_state))"
    by (rule mcp_handler_not_found)
qed (simp_all add: session_not_found_def)

text \<open>
  C1. The claim is that every request with an identifier that has no session is answered
  with the session-not-found error, code -32001. For the identifier
  \<^verbatim>\<open>constructor\<close>, which the server never issues, the read of \<^verbatim>\<open>activeTransports\<close>
  finds the inherited function, the handler takes it for the transport of a session, the
  call of its \<^verbatim>\<open>handleRequest\<close> throws, and the answer is the internal error: status
  500, code -32000. No session is created.
\<close>

theorem inherited_session_id_internal_error:
  "mcp_handler isInitializeRequest handleRequest
     \<lparr>http_method = ''POST'', mcp_session_id = Some ''constructor'', body = Some tools_call_body\<rparr>
     one_session
   = (Replied \<lparr>status = 500, code = - 32000, message = ''Internal Server Error'',
               rpc_id = JNum 7\<rparr>, one_session)"
  by (simp add: mcp_handler_def Let_def truthy_string_def tools_call_body_def
        try_handleRequest_def one_session_def js_get_def object_prototype_keys_def
        internal_server_error_def request_id_def)

text \<open>
  C2. A request without a session identifier whose body is not an initialization request
  is answered with status 400 and code -32600, and the state of the server, its registry
  included, is unchanged.
\<close>

theorem malformed_request_rejected:
  assumes "mcp_session_id req = None" and "\<not> isInitializeRequest (body req)"
  shows "mcp_handler isInitializeRequest handleRequest req s = (Replied (bad_request req), s)
       \<and> status (bad_request req) = 400 \<and> code (bad_request req) = - 32600"
  using assms by (simp add: mcp_handler_def Let_def truthy_string_def bad_request_def)

text \<open>
  A \<^verbatim>\<open>tools/call\<close> without a session identifier, sent to the server with one
  session.
\<close>

theorem malformed_request_rejected_witness:
  "mcp_session_id \<lparr>http_method = ''POST'', mcp_session_id = None, body = Some tools_call_body\<rparr> = None
   \<and> \<not> example_isInitializeRequest (Some tools_call_body)
   \<and> mcp_handler example_isInitializeRequest always_returns
        \<lparr>http_method = ''POST'', mcp_session_id = None, body = Some tools_call_body\<rparr> one_session
       = (Replied \<lparr>status = 400, code = - 32600,
                   message = ''Bad Request: Session ID required or invalid initialization.'',
                   rpc_id = JNum 7\<rparr>, one_session)"
proof -
  have absent: "mcp_session_id \<lparr>http_method = ''POST'', mcp_session_id = None, body = Some tools_call_body\<rparr> = None"
    by simp
  have other: "\<not> example_isInitializeRequest
                  (body \<lparr>http_method = ''POST'', mcp_session_id = None, body = Some tools_call_body\<rparr>)"
    by (simp add: example_isInitializeRequest_def tools_call_body_def)
  show ?thesis
    using other
      malformed_request_rejected
        [where req = "\<lparr>http_method = ''POST'', mcp_session_id = None, body = Some tools_call_body\<rparr>"
           and isInitializeRequest = example_isInitializeRequest
           and handleRequest = always_returns and s = one_session, OF absent other]
    by (simp add: bad_request_def request_id_def tools_call_body_def)
qed

text \<open>
  C3. Let the session of transport \<open>t\<close> have the identifier \<open>sid\<close>, a UUID as the
  generator issues them. When the transport closes, \<open>sid\<close> is no key of the registry any
  more, and closing it again changes nothing. Whatever happens afterwards (requests,
  initializations of other sessions, further closings), as long as the generator does not
  issue \<open>sid\<close> a second time: \<open>sid\<close> stays out of the registry, and every request that
  bears it is answered with the session-not-found error, status 404 and code -32001.
\<close>

theorem closed_session_stays_closed:
  assumes "is_uuid sid" and "sessionId s t = Some sid"
    and "list_all issues_uuid es" and "\<not> list_ex (issues sid) es"
  shows "activeTransports (onclose t s) sid = None
       \<and> onclose t (onclose t s) = onclose t s
       \<and> activeTransports (snd (run isInitializeRequest es (onclose t s))) sid = None
       \<and> (\<forall>i req handleRequest.
            i < length es \<and> es ! i = Request req handleRequest \<and> mcp_session_id req = Some sid \<longrightarrow>
            fst (run isInitializeRequest es (onclose t s)) ! i
              = Some (Replied (session_not_found req)))
       \<and> status (session_not_found req') = 404 \<and> code (session_not_found req') = - 32001"
proof -
  from assms(1) have plain: "sid \<noteq> []" "sid \<notin> set object_prototype_keys"
    using is_uuid_plain by blast+
  from assms(2) plain(1) have removed: "activeTransports (onclose t s) sid = None"
    by (rule onclose_removes)
  have stays: "activeTransports (snd (run isInitializeRequest es (onclose t s))) sid = None"
    using removed assms(4) by (rule run_keeps_absent)
  have rejected: "fst (run isInitializeRequest es (onclose t s)) ! i
              = Some (Replied (session_not_found req))"
    if "i < length es" "es ! i = Request req handleRequest" "mcp_session_id req = Some sid"
    for i req handleRequest
    using removed assms(4) plain that by (rule run_rejects)
  from removed stays rejected show ?thesis
    by (simp add: onclose_idem session_not_found_def)
qed

text \<open>
  The session of the example state is closed; a new session is initialized in another
  transport, the close signal comes once more, and the request with the old identifier is
  rejected.
\<close>

theorem closed_session_stays_closed_witness:
  "is_uuid ''36b8f84d-df4e-4d49-b662-bcde71a8764f''
   \<and> sessionId one_session 0 = Some ''36b8f84d-df4e-4d49-b662-bcde71a8764f''
   \<and> activeTransports one_session ''36b8f84d-df4e-4d49-b662-bcde71a8764f'' = Some 0
   \<and> activeTransports (onclose 0 one_session) ''36b8f84d-df4e-4d49-b662-bcde71a8764f'' = None
   \<and> fst (run example_isInitializeRequest
            [Request \<lparr>http_method = ''POST'', mcp_session_id = None, body = Some initialize_body\<rparr>
               always_returns,
             SessionInitialized 1 ''1b9d6bcd-bbfd-4b2d-9b5d-ab8dfbbd4bed'',
             Closed 0,
             Request \<lparr>http_method = ''POST'',
                      mcp_session_id = Some ''36b8f84d-df4e-4d49-b662-bcde71a8764f'',
                      body = Some tools_call_body\<rparr> always_returns]
            (onclose 0 one_session)) ! 3
       = Some (Replied \<lparr>status = 404, code = - 32001,
                         message = ''Session not found. Please re-initialize.'',
                         rpc_id = JNum 7\<rparr>)"
proof -
  let ?sid = "''36b8f84d-df4e-4d49-b662-bcde71a8764f''"
  let ?req = "\<lparr>http_method = ''POST'', mcp_session_id = Some ?sid, body = Some tools_call_body\<rparr>"
  let ?es = "[Request \<lparr>http_method = ''POST'', mcp_session_id = None, body = Some initialize_body\<rparr>
               always_returns,
             SessionInitialized 1 ''1b9d6bcd-bbfd-4b2d-9b5d-ab8dfbbd4bed'',
             Closed 0,
             Request ?req always_returns]"
  have bound: "sessionId one_session 0 = Some ?sid"
    by (simp add: one_session_def)
  have served: "activeTransports one_session ?sid = Some 0"
    by (simp add: one_session_def)
  have issued: "list_all issues_uuid ?es"
    by (simp add: uuid_b)
  have fresh: "\<not> list_ex (issues ?sid) ?es"
    by simp
  have "fst (run example_isInitializeRequest ?es (onclose 0 one_session)) ! 3
          = Some (Replied (session_not_found ?req))"
    using closed_session_stays_closed [OF uuid_a bound issued fresh, of example_isInitializeRequest]
    by simp
  moreover have "activeTransports (onclose 0 one_session) ?sid = None"
    using closed_session_stays_closed [OF uuid_a bound issued fresh, of example_isInitializeRequest]
    by simp
  ultimately show ?thesis
    using uuid_a bound served
    by (simp add: session_not_found_def request_id_def tools_call_body_def)
qed

text \<open>
  C7. The one insertion into the registry is the assignment in
  \<^verbatim>\<open>onsessioninitialized\<close>. For every identifier of the generator it stores the binding
  whether or not the identifier is a key already; a binding that was there is replaced,
  every other binding and the rest of the state stay as they are. There is no error.
\<close>

theorem insert_is_unconditional:
  assumes "is_uuid sid"
  shows "activeTransports (onsessioninitialized t sid s) = (activeTransports s)(sid \<mapsto> t)
       \<and> sessionId (onsessioninitialized t sid s) = sessionId s
       \<and> created (onsessioninitialized t sid s) = created s"
  by (simp add: onsessioninitialized_def)

theorem insert_is_unconditional_witness:
  "is_uuid ''36b8f84d-df4e-4d49-b662-bcde71a8764f''
   \<and> activeTransports one_session ''36b8f84d-df4e-4d49-b662-bcde71a8764f'' = Some 0
   \<and> activeTransports
        (onsessioninitialized 1 ''36b8f84d-df4e-4d49-b662-bcde71a8764f'' one_session)
       = [''36b8f84d-df4e-4d49-b662-bcde71a8764f'' \<mapsto> 1]"
  using uuid_a insert_is_unconditional [OF uuid_a, of 1 one_session]
  by (simp add: one_session_def)

text \<open>
  The claim as stated has the insertion fail on a key that is present. In the example
  state the identifier is bound to transport 0; the callback of transport 1 with the same
  identifier replaces the binding.
\<close>

theorem insert_overwrites_counterexample:
  "activeTransports one_session ''36b8f84d-df4e-4d49-b662-bcde71a8764f'' = Some 0
   \<and> activeTransports
        (onsessioninitialized 1 ''36b8f84d-df4e-4d49-b662-bcde71a8764f'' one_session)
        ''36b8f84d-df4e-4d49-b662-bcde71a8764f'' = Some 1"
  by (simp add: one_session_def onsessioninitialized_def)

end
